theory Spec2Isabelle
  imports Main "HOL-Library.Word"
begin

section \<open>Strings, error values and diagnostics\<close>

text \<open>
  A Go string is a sequence of bytes; it is modelled as a \<^typ>\<open>string\<close>, one \<^typ>\<open>char\<close>
  per byte. A Go \<^verbatim>\<open>error\<close> built by \<^verbatim>\<open>fmt.Errorf\<close> is its message. The message is kept
  as the list of its pieces, so that an argument formatted with \<^verbatim>\<open>%q\<close> stays an argument
  (\<open>Quoted\<close>) and the escaping rules of \<^verbatim>\<open>strconv.Quote\<close> play no part.
\<close>

datatype part = Text string | Quoted string

type_synonym error = "part list"

text \<open>
  The result of a Go call: a value, an error, or a nil-pointer panic that unwinds the
  whole operation.
\<close>

datatype 'a result = Ret 'a | Fail error | Panic

text \<open>A diagnostic of the plugin framework: a severity, a summary and a detail.\<close>

datatype Diagnostic = ErrorDiag string error | WarningDiag string error

type_synonym Diagnostics = "Diagnostic list"

fun isError :: "Diagnostic \<Rightarrow> bool" where
  "isError (ErrorDiag _ _) = True"
| "isError (WarningDiag _ _) = False"

definition HasError :: "Diagnostics \<Rightarrow> bool" where
  "HasError ds = list_ex isError ds"

section \<open>Identity codec (the two regular expressions)\<close>

text \<open>
  The source compiles two patterns:
  \<^verbatim>\<open>idRegex         = \Ahttps://([^/]+)\.vault.azure.net/secrets/([^/]+)\<close> and
  \<^verbatim>\<open>keyVaultIDRegex = \A/subscriptions/[^/]+/resourceGroups/[^/]+/providers/Microsoft.KeyVault/vaults/([^/]+)\z\<close>.
  Both are anchored at the start of the text, so \<^verbatim>\<open>FindStringSubmatch\<close> tries position 0
  only. The matchers below follow the patterns item by item: a literal, the class
  \<^verbatim>\<open>[^/]+\<close>, and the unescaped dot, which Go matches against any one rune other than
  newline.
\<close>

definition slash :: char where
  "slash = CHR ''/''"

definition newline :: char where
  "newline = CHR 0x0A"

definition byte :: "char \<Rightarrow> nat" where
  "byte c = of_char c"

definition inRange :: "nat \<Rightarrow> nat \<Rightarrow> char \<Rightarrow> bool" where
  "inRange lo hi c = (lo \<le> byte c \<and> byte c \<le> hi)"

definition cont :: "char \<Rightarrow> bool" where
  "cont c = inRange 0x80 0xBF c"

text \<open>
  The number of bytes of the first rune of a string, as \<^verbatim>\<open>utf8.DecodeRuneInString\<close>
  reports it: the length of a well-formed UTF-8 sequence, and 1 for a byte that starts
  none (the decoder then yields the replacement rune of width 1).
\<close>

fun runeWidth :: "string \<Rightarrow> nat" where
  "runeWidth [] = 0"
| "runeWidth (c # cs) =
     (let b = byte c in
      if b < 0x80 then 1
      else if 0xC2 \<le> b \<and> b \<le> 0xDF then
        (case cs of
           c1 # _ \<Rightarrow> if cont c1 then 2 else 1
         | _ \<Rightarrow> 1)
      else if 0xE0 \<le> b \<and> b \<le> 0xEF then
        (case cs of
           c1 # c2 # _ \<Rightarrow>
             if inRange (if b = 0xE0 then 0xA0 else 0x80) (if b = 0xED then 0x9F else 0xBF) c1
                \<and> cont c2
             then 3 else 1
         | _ \<Rightarrow> 1)
      else if 0xF0 \<le> b \<and> b \<le> 0xF4 then
        (case cs of
           c1 # c2 # c3 # _ \<Rightarrow>
             if inRange (if b = 0xF0 then 0x90 else 0x80) (if b = 0xF4 then 0x8F else 0xBF) c1
                \<and> cont c2 \<and> cont c3
             then 4 else 1
         | _ \<Rightarrow> 1)
      else 1)"

text \<open>A literal: the text must start with it; the rest of the text is returned.\<close>

fun lit :: "string \<Rightarrow> string \<Rightarrow> string option" where
  "lit [] s = Some s"
| "lit (p # ps) [] = None"
| "lit (p # ps) (c # cs) = (if p = c then lit ps cs else None)"

text \<open>The unescaped dot: one rune, not a newline.\<close>

definition dot :: "string \<Rightarrow> string option" where
  "dot s = (case s of
              [] \<Rightarrow> None
            | c # cs \<Rightarrow> if c = newline then None else Some (drop (runeWidth s) s))"

text \<open>
  \<^verbatim>\<open>[^/]+\<close> taken greedily: the longest run of bytes other than \<open>/\<close>, which must
  not be empty. (No byte of a multi-byte rune is \<open>/\<close>, so the run of bytes is the run of
  runes.)
\<close>

definition notSlashPlus :: "string \<Rightarrow> (string \<times> string) option" where
  "notSlashPlus s =
     (let run = takeWhile (\<lambda>c. c \<noteq> slash) s in
      if run = [] then None else Some (run, drop (length run) s))"

text \<open>
  \<^verbatim>\<open>keyVaultIDRegex\<close>. Each \<^verbatim>\<open>[^/]+\<close> is followed by a literal \<open>/\<close> or by the end of
  the text, so only the longest run can match and no backtracking is needed. The result
  is capture group 1.
\<close>

definition keyVaultIDRegex :: "string \<Rightarrow> string option" where
  "keyVaultIDRegex s =
     (case lit ''/subscriptions/'' s of None \<Rightarrow> None | Some s1 \<Rightarrow>
      case notSlashPlus s1 of None \<Rightarrow> None | Some (_, s2) \<Rightarrow>
      case lit ''/resourceGroups/'' s2 of None \<Rightarrow> None | Some s3 \<Rightarrow>
      case notSlashPlus s3 of None \<Rightarrow> None | Some (_, s4) \<Rightarrow>
      case lit ''/providers/Microsoft'' s4 of None \<Rightarrow> None | Some s5 \<Rightarrow>
      case dot s5 of None \<Rightarrow> None | Some s6 \<Rightarrow>
      case lit ''KeyVault/vaults/'' s6 of None \<Rightarrow> None | Some s7 \<Rightarrow>
      case notSlashPlus s7 of None \<Rightarrow> None | Some (name, s8) \<Rightarrow>
      if s8 = [] then Some name else None)"

text \<open>
  The part of \<^verbatim>\<open>idRegex\<close> after the first group:
  \<^verbatim>\<open>\.vault.azure.net/secrets/([^/]+)\<close>. Nothing follows the second group, so it is the
  longest run. The result is capture group 2.
\<close>

definition idRegexTail :: "string \<Rightarrow> string option" where
  "idRegexTail s =
     (case lit ''.vault'' s of None \<Rightarrow> None | Some s1 \<Rightarrow>
      case dot s1 of None \<Rightarrow> None | Some s2 \<Rightarrow>
      case lit ''azure'' s2 of None \<Rightarrow> None | Some s3 \<Rightarrow>
      case dot s3 of None \<Rightarrow> None | Some s4 \<Rightarrow>
      case lit ''net/secrets/'' s4 of None \<Rightarrow> None | Some s5 \<Rightarrow>
      case notSlashPlus s5 of None \<Rightarrow> None | Some (name, _) \<Rightarrow> Some name)"

text \<open>
  The first group of \<^verbatim>\<open>idRegex\<close> is greedy and is followed by more pattern: the
  leftmost-first match tries the longest run first and gives characters back one at a
  time, down to a run of length 1.
\<close>

fun idRegexGroup :: "nat \<Rightarrow> string \<Rightarrow> (string \<times> string) option" where
  "idRegexGroup 0 s = None"
| "idRegexGroup (Suc n) s =
     (case idRegexTail (drop (Suc n) s) of
        Some name \<Rightarrow> Some (take (Suc n) s, name)
      | None \<Rightarrow> idRegexGroup n s)"

definition idRegex :: "string \<Rightarrow> (string \<times> string) option" where
  "idRegex s =
     (case lit ''https://'' s of None \<Rightarrow> None | Some s1 \<Rightarrow>
      idRegexGroup (length (takeWhile (\<lambda>c. c \<noteq> slash) s1)) s1)"

text \<open>The patterns' source texts, which the error messages quote.\<close>

definition backslash :: char where
  "backslash = CHR 0x5C"

definition keyVaultIDRegex_source :: string where
  "keyVaultIDRegex_source =
     backslash # ''A/subscriptions/[^/]+/resourceGroups/[^/]+/providers/Microsoft.KeyVault/vaults/([^/]+)''
     @ [backslash, CHR ''z'']"

definition idRegex_source :: string where
  "idRegex_source =
     backslash # ''Ahttps://([^/]+)'' @ backslash # ''.vault.azure.net/secrets/([^/]+)''"

definition extractVaultName :: "string \<Rightarrow> error + string" where
  "extractVaultName keyVaultID =
     (case keyVaultIDRegex keyVaultID of
        None \<Rightarrow> Inl [Text ''invalid key vault ID: '', Quoted keyVaultID,
                      Text '' doesn't match '', Quoted keyVaultIDRegex_source]
      | Some name \<Rightarrow> Inr name)"

definition extractVaultNameAndName :: "string \<Rightarrow> error + string \<times> string" where
  "extractVaultNameAndName ident =
     (case idRegex ident of
        None \<Rightarrow> Inl [Text ''invalid ID: '', Quoted ident,
                      Text '' doesn't match '', Quoted idRegex_source]
      | Some (vaultName, name) \<Rightarrow> Inr (vaultName, name))"

section \<open>Framework values and the secret record\<close>

text \<open>
  The attribute values of the plugin framework: each is null, unknown or a known value.
  \<^verbatim>\<open>ValueString\<close> and \<^verbatim>\<open>ValueInt32\<close> read a known value and give the zero value of
  the type for null and unknown. Go's \<^verbatim>\<open>!=\<close> on two such values compares the state and
  the value, which is equality of the datatype.
\<close>

datatype types_String = StringNull | StringUnknown | StringValue string

datatype types_Int32 = Int32Null | Int32Unknown | Int32Value "32 word"

datatype types_Map = MapNull | MapUnknown | MapValue "(string \<times> types_String) list"

fun ValueString :: "types_String \<Rightarrow> string" where
  "ValueString (StringValue s) = s"
| "ValueString _ = []"

fun ValueInt32 :: "types_Int32 \<Rightarrow> 32 word" where
  "ValueInt32 (Int32Value n) = n"
| "ValueInt32 _ = 0"

text \<open>
  A \<^verbatim>\<open>time.Time\<close>: an instant (in nanoseconds) and a location. \<^verbatim>\<open>After\<close> compares the
  instants; \<^verbatim>\<open>UTC\<close> keeps the instant and sets the location.
\<close>

record Time =
  instant :: int
  location :: string

definition After :: "Time \<Rightarrow> Time \<Rightarrow> bool" where
  "After t u = (instant u < instant t)"

definition UTC :: "Time \<Rightarrow> Time" where
  "UTC t = t\<lparr>location := ''UTC''\<rparr>"

text \<open>
  A \<^verbatim>\<open>timetypes.RFC3339\<close> value is represented by the time it was built from; its text
  form is not modelled.
\<close>

datatype RFC3339 = RFC3339Null | RFC3339Unknown | RFC3339Value Time

fun NewRFC3339TimePointerValue :: "Time option \<Rightarrow> RFC3339" where
  "NewRFC3339TimePointerValue None = RFC3339Null"
| "NewRFC3339TimePointerValue (Some t) = RFC3339Value t"

text \<open>
  \<^verbatim>\<open>SecretDataSourceModel\<close>, and \<^verbatim>\<open>SecretResourceModel\<close>, which embeds it. The setters and
  \<^verbatim>\<open>GetKeyVaultID\<close> of the \<^verbatim>\<open>SecretModel\<close> interface are the record updates and the
  function below; they work on both records.
\<close>

record SecretDataSourceModel =
  Name :: types_String
  KeyVaultID :: types_String
  ID :: types_String
  VersionlessID :: types_String
  ContentType :: types_String
  NotBeforeDate :: RFC3339
  ExpirationDate :: RFC3339
  Version :: types_String
  ResourceID :: types_String
  ResourceVersionlessID :: types_String
  Tags :: types_Map

record SecretResourceModel = SecretDataSourceModel +
  ValueWO :: types_String
  ValueWOVersion :: types_Int32

record SecretResourceIdentityModel =
  identity_Name :: types_String
  identity_KeyVaultID :: types_String

definition GetKeyVaultID_model :: "'a SecretDataSourceModel_scheme \<Rightarrow> string" where
  "GetKeyVaultID_model s = ValueString (KeyVaultID s)"

section \<open>Values of the vault SDK\<close>

text \<open>
  \<^verbatim>\<open>azsecrets.ID\<close> is a string with two observers, \<^verbatim>\<open>Name()\<close> and \<^verbatim>\<open>Version()\<close>, which
  the SDK computes from the path of the URL. \<^verbatim>\<open>Version()\<close> is empty for an identifier
  that has no version segment. \<^verbatim>\<open>Name()\<close> dereferences the name segment it has parsed,
  and panics for an identifier that has none: \<open>ID_Name\<close> is \<open>None\<close> for such an
  identifier. The SDK is not part of the repository: an identifier is the string together
  with what the two observers give for it.
\<close>

record azsecrets_ID =
  ID_string :: string
  ID_Name :: "string option"
  ID_Version :: string

text \<open>\<^verbatim>\<open>Version()\<close> on a pointer: the SDK returns the empty string for a nil identifier.\<close>

fun Version_of :: "azsecrets_ID option \<Rightarrow> string" where
  "Version_of None = []"
| "Version_of (Some i) = ID_Version i"

text \<open>Of \<^verbatim>\<open>azsecrets.SecretAttributes\<close>, the three timestamps the repository reads or writes.\<close>

record SecretAttributes =
  Created :: "Time option"
  NotBefore :: "Time option"
  Expires :: "Time option"

text \<open>A Go \<^verbatim>\<open>map[string]*string\<close>; the map itself may be nil (\<open>None\<close> where it is optional).\<close>

type_synonym tags = "(string \<times> string option) list"

text \<open>
  \<^verbatim>\<open>azsecrets.SecretProperties\<close>, an entry of the version listing. The responses of
  \<^verbatim>\<open>SetSecret\<close> and \<^verbatim>\<open>UpdateSecretProperties\<close> embed \<^verbatim>\<open>azsecrets.Secret\<close>, of which the
  repository reads the same four fields, so they share the record.
\<close>

record SecretProperties =
  prop_ID :: "azsecrets_ID option"
  prop_Attributes :: "SecretAttributes option"
  prop_ContentType :: "string option"
  prop_Tags :: "tags option"

record SetSecretParameters =
  set_Value :: "string option"
  set_ContentType :: "string option"
  set_SecretAttributes :: "SecretAttributes option"
  set_Tags :: "tags option"

record UpdateSecretPropertiesParameters =
  upd_ContentType :: "string option"
  upd_SecretAttributes :: "SecretAttributes option"
  upd_Tags :: "tags option"

section \<open>Secret record builder\<close>

definition HasSuffix :: "string \<Rightarrow> string \<Rightarrow> bool" where
  "HasSuffix s suffix =
     (length suffix \<le> length s \<and> drop (length s - length suffix) s = suffix)"

definition TrimSuffix :: "string \<Rightarrow> string \<Rightarrow> string" where
  "TrimSuffix s suffix =
     (if HasSuffix s suffix then take (length s - length suffix) s else s)"

text \<open>
  \<^verbatim>\<open>types.MapValueFrom\<close> with element type string: a nil pointer becomes a null element.
  For this element type the conversion has no failing case; the caller's check of its
  diagnostics is kept as the source has it.
\<close>

definition MapValueFrom :: "tags \<Rightarrow> types_Map \<times> Diagnostics" where
  "MapValueFrom t =
     (MapValue (map (\<lambda>(k, v). (k, case v of None \<Rightarrow> StringNull | Some x \<Rightarrow> StringValue x)) t),
      [])"

text \<open>
  \<^verbatim>\<open>setSecretData\<close> mutates the model through the interface and returns diagnostics. The
  model returns both; \<open>None\<close> is a panic: of \<^verbatim>\<open>*id\<close> on a nil identifier, of
  \<^verbatim>\<open>id.Name()\<close> on an identifier without a name segment (after \<open>id\<close>, \<open>versionless_id\<close>
  and \<open>version\<close> are set), or of \<^verbatim>\<open>attrs.NotBefore\<close> on nil attributes. A panic unwinds
  the operation that called, and the model struct it was filling is lost with it.
\<close>

definition setSecretData ::
  "'a SecretDataSourceModel_scheme \<Rightarrow> azsecrets_ID option \<Rightarrow> SecretAttributes option \<Rightarrow>
   string option \<Rightarrow> tags option \<Rightarrow> (Diagnostics \<times> 'a SecretDataSourceModel_scheme) option" where
  "setSecretData s ident attrs contentType tgs =
     (case ident of
        None \<Rightarrow> None
      | Some i \<Rightarrow>
          let s1 = s\<lparr>ID := StringValue (ID_string i)\<rparr>;
              s2 = s1\<lparr>VersionlessID :=
                        StringValue (TrimSuffix (ID_string i) (''/'' @ ID_Version i))\<rparr>;
              s3 = s2\<lparr>Version := StringValue (ID_Version i)\<rparr>
          in case ID_Name i of
               None \<Rightarrow> None
             | Some idName \<Rightarrow>
                 let resourceVersionlessID = GetKeyVaultID_model s3 @ ''/secrets/'' @ idName;
                     s4 = s3\<lparr>ResourceVersionlessID := StringValue resourceVersionlessID\<rparr>;
                     s5 = s4\<lparr>ResourceID :=
                               StringValue (resourceVersionlessID @ ''/versions/''
                                            @ ID_Version i)\<rparr>;
                     s6 = (case contentType of
                             None \<Rightarrow> s5
                           | Some c \<Rightarrow> s5\<lparr>ContentType := StringValue c\<rparr>)
                 in case attrs of
                      None \<Rightarrow> None
                    | Some a \<Rightarrow>
                        let s7 = (case NotBefore a of
                                    None \<Rightarrow> s6
                                  | Some t \<Rightarrow>
                                      s6\<lparr>NotBeforeDate :=
                                           NewRFC3339TimePointerValue (Some (UTC t))\<rparr>);
                            s8 = (case Expires a of
                                    None \<Rightarrow> s7
                                  | Some t \<Rightarrow>
                                      s7\<lparr>ExpirationDate :=
                                           NewRFC3339TimePointerValue (Some (UTC t))\<rparr>)
                        in case tgs of
                             None \<Rightarrow> Some ([], s8)
                           | Some t \<Rightarrow>
                               let (attrTags, diags) = MapValueFrom t
                               in if HasError diags then Some (diags, s8)
                                  else Some ([], s8\<lparr>Tags := attrTags\<rparr>))"

section \<open>The concrete client\<close>

text \<open>
  The \<^verbatim>\<open>client\<close> struct holds a subscription identifier and the SDK clients. The SDK
  calls are the remaining fields: what constructing a secrets client for a vault URL
  gives (an error or none), the pages a pager yields one after the other (each an error
  or a list of entries), and the responses of the two writing calls. The cache of
  secrets clients is not modelled: the constructor is a function of the vault URL, so a
  cached client and a new one behave alike.
\<close>

record client =
  subscriptionID :: string
  NewClient :: "string \<Rightarrow> error option"
  NewListSecretPropertiesVersionsPager ::
    "string \<Rightarrow> string \<Rightarrow> (error + SecretProperties list) list"
  sdk_SetSecret :: "string \<Rightarrow> string \<Rightarrow> SetSecretParameters \<Rightarrow> error + SecretProperties"
  sdk_UpdateSecretProperties ::
    "string \<Rightarrow> string \<Rightarrow> string \<Rightarrow> UpdateSecretPropertiesParameters \<Rightarrow> error + SecretProperties"
  NewListPager :: "string \<Rightarrow> (error + string option list) list"

definition GetSubscriptionID :: "client \<Rightarrow> string" where
  "GetSubscriptionID c = subscriptionID c"

text \<open>The secrets client of a vault is represented by the vault's URL.\<close>

definition getSecretClient :: "client \<Rightarrow> string \<Rightarrow> error + string" where
  "getSecretClient c keyVaultID =
     (case extractVaultName keyVaultID of
        Inl err \<Rightarrow> Inl err
      | Inr vaultName \<Rightarrow>
          let url = ''https://'' @ vaultName @ ''.vault.azure.net''
          in case NewClient c url of
               Some err \<Rightarrow> Inl err
             | None \<Rightarrow> Inr url)"

text \<open>
  \<^verbatim>\<open>secret.Attributes.Created.After(*latestSecretProperties.Attributes.Created)\<close>: every
  pointer on the way is dereferenced, so a nil one panics (\<open>None\<close>).
\<close>

definition createdAfter :: "SecretProperties \<Rightarrow> SecretProperties \<Rightarrow> bool option" where
  "createdAfter secret latest =
     (case prop_Attributes secret of None \<Rightarrow> None | Some a \<Rightarrow>
      case Created a of None \<Rightarrow> None | Some t \<Rightarrow>
      case prop_Attributes latest of None \<Rightarrow> None | Some b \<Rightarrow>
      case Created b of None \<Rightarrow> None | Some u \<Rightarrow> Some (After t u))"

text \<open>
  The inner loop over the entries of one page. \<open>Inl secret\<close> is the \<^verbatim>\<open>return secret, nil\<close>
  inside the loop; \<open>Inr latest\<close> is the value of \<^verbatim>\<open>latestSecretProperties\<close> when the page
  is exhausted.
\<close>

fun scanPage ::
  "string \<Rightarrow> SecretProperties option \<Rightarrow> SecretProperties list \<Rightarrow>
   (SecretProperties + SecretProperties option) result" where
  "scanPage version latest [] = Ret (Inr latest)"
| "scanPage version latest (secret # rest) =
     (if version \<noteq> [] \<and> version \<noteq> Version_of (prop_ID secret) then Ret (Inl secret)
      else case latest of
             None \<Rightarrow> scanPage version (Some secret) rest
           | Some l \<Rightarrow>
               (case createdAfter secret l of
                  None \<Rightarrow> Panic
                | Some b \<Rightarrow> scanPage version (if b then Some secret else latest) rest))"

text \<open>The outer loop: \<^verbatim>\<open>for pager.More() { page, err := pager.NextPage(ctx) ... }\<close>.\<close>

fun scanPages ::
  "string \<Rightarrow> SecretProperties option \<Rightarrow> (error + SecretProperties list) list \<Rightarrow>
   (SecretProperties + SecretProperties option) result" where
  "scanPages version latest [] = Ret (Inr latest)"
| "scanPages version latest (Inl err # pages) = Fail err"
| "scanPages version latest (Inr page # pages) =
     (case scanPage version latest page of
        Ret (Inr latest') \<Rightarrow> scanPages version latest' pages
      | r \<Rightarrow> r)"

definition GetSecretProperties ::
  "client \<Rightarrow> string \<Rightarrow> string \<Rightarrow> string \<Rightarrow> SecretProperties result" where
  "GetSecretProperties c keyVaultID name version =
     (case getSecretClient c keyVaultID of
        Inl err \<Rightarrow> Fail err
      | Inr secretClient \<Rightarrow>
          (case scanPages version None (NewListSecretPropertiesVersionsPager c secretClient name) of
             Ret (Inl secret) \<Rightarrow> Ret secret
           | Ret (Inr None) \<Rightarrow>
               Fail [Text ''the secret '', Quoted name,
                     Text '' was not found in the key vault '', Quoted keyVaultID]
           | Ret (Inr (Some latestSecretProperties)) \<Rightarrow> Ret latestSecretProperties
           | Fail err \<Rightarrow> Fail err
           | Panic \<Rightarrow> Panic))"

definition SetSecret ::
  "client \<Rightarrow> string \<Rightarrow> string \<Rightarrow> SetSecretParameters \<Rightarrow> SecretProperties result" where
  "SetSecret c keyVaultID name parameters =
     (case getSecretClient c keyVaultID of
        Inl err \<Rightarrow> Fail err
      | Inr secretClient \<Rightarrow>
          (case sdk_SetSecret c secretClient name parameters of
             Inl err \<Rightarrow> Fail err
           | Inr resp \<Rightarrow> Ret resp))"

definition UpdateSecretProperties ::
  "client \<Rightarrow> string \<Rightarrow> string \<Rightarrow> string \<Rightarrow> UpdateSecretPropertiesParameters \<Rightarrow>
   SecretProperties result" where
  "UpdateSecretProperties c keyVaultID name version parameters =
     (case getSecretClient c keyVaultID of
        Inl err \<Rightarrow> Fail err
      | Inr secretClient \<Rightarrow>
          (case sdk_UpdateSecretProperties c secretClient name version parameters of
             Inl err \<Rightarrow> Fail err
           | Inr resp \<Rightarrow> Ret resp))"

text \<open>
  The loop of \<^verbatim>\<open>GetKeyVaultID\<close> returns at the first entry of the first page that has
  one; \<^verbatim>\<open>*keyVault.ID\<close> panics on a nil identifier. \<open>Ret None\<close>: the pages are exhausted.
\<close>

fun firstKeyVault :: "(error + string option list) list \<Rightarrow> string option result" where
  "firstKeyVault [] = Ret None"
| "firstKeyVault (Inl err # pages) = Fail err"
| "firstKeyVault (Inr [] # pages) = firstKeyVault pages"
| "firstKeyVault (Inr (None # _) # pages) = Panic"
| "firstKeyVault (Inr (Some kvid # _) # pages) = Ret (Some kvid)"

definition apostrophe :: char where
  "apostrophe = CHR 0x27"

definition quotation :: char where
  "quotation = CHR 0x22"

definition GetKeyVaultID :: "client \<Rightarrow> string \<Rightarrow> string result" where
  "GetKeyVaultID c vaultName =
     (case firstKeyVault
             (NewListPager c
                (''resourceType eq '' @ [apostrophe] @ ''Microsoft.KeyVault/vaults'' @ [apostrophe]
                 @ '' and name eq '' @ [apostrophe] @ vaultName @ [apostrophe]))
      of
        Ret (Some kvid) \<Rightarrow> Ret kvid
      | Ret None \<Rightarrow>
          Fail [Text ''the key vault '', Quoted vaultName,
                Text ('' not found; make sure that the key vault name is correct and that you have the ''
                      @ [quotation] @ ''Microsoft.KeyVault/vaults/read'' @ [quotation]
                      @ '' permission'')]
      | Fail err \<Rightarrow> Fail err
      | Panic \<Rightarrow> Panic)"

section \<open>The secret resource\<close>

text \<open>
  \<^verbatim>\<open>Diagnostics.Append\<close> of the framework adds each diagnostic that the collection does
  not hold yet; \<^verbatim>\<open>AddError\<close> appends one error.
\<close>

fun Append :: "Diagnostics \<Rightarrow> Diagnostics \<Rightarrow> Diagnostics" where
  "Append diags [] = diags"
| "Append diags (d # ds) = Append (if d \<in> set diags then diags else diags @ [d]) ds"

definition AddError :: "Diagnostics \<Rightarrow> string \<Rightarrow> error \<Rightarrow> Diagnostics" where
  "AddError diags summary detail = Append diags [ErrorDiag summary detail]"

text \<open>
  The resource holds a value of the interface \<^verbatim>\<open>Client\<close>; the concrete \<^verbatim>\<open>client\<close> is one
  implementation of it.
\<close>

record Client =
  Client_GetSubscriptionID :: string
  Client_GetSecretProperties :: "string \<Rightarrow> string \<Rightarrow> string \<Rightarrow> SecretProperties result"
  Client_SetSecret :: "string \<Rightarrow> string \<Rightarrow> SetSecretParameters \<Rightarrow> SecretProperties result"
  Client_UpdateSecretProperties ::
    "string \<Rightarrow> string \<Rightarrow> string \<Rightarrow> UpdateSecretPropertiesParameters \<Rightarrow> SecretProperties result"
  Client_GetKeyVaultID :: "string \<Rightarrow> string result"

definition asClient :: "client \<Rightarrow> Client" where
  "asClient c =
     \<lparr>Client_GetSubscriptionID = GetSubscriptionID c,
      Client_GetSecretProperties = GetSecretProperties c,
      Client_SetSecret = SetSecret c,
      Client_UpdateSecretProperties = UpdateSecretProperties c,
      Client_GetKeyVaultID = GetKeyVaultID c\<rparr>"

text \<open>
  Reading the configuration, the plan or the state into a model struct does not fail:
  every field of the struct is a framework value, which holds null and unknown. Those
  reads are the models themselves, and a null raw value (a resource being created or
  destroyed) is \<open>None\<close>. Reading one attribute into a Go \<^verbatim>\<open>string\<close> or \<^verbatim>\<open>int32\<close> fails on
  null and on unknown with an error diagnostic and leaves the zero value.
\<close>

definition GetAttribute_string :: "types_String \<Rightarrow> string \<times> Diagnostics" where
  "GetAttribute_string v =
     (case v of
        StringValue s \<Rightarrow> (s, [])
      | StringNull \<Rightarrow> ([], [ErrorDiag ''Value Conversion Error'' [Text ''unhandled null value'']])
      | StringUnknown \<Rightarrow>
          ([], [ErrorDiag ''Value Conversion Error'' [Text ''unhandled unknown value'']]))"

definition GetAttribute_int32 :: "types_Int32 \<Rightarrow> 32 word \<times> Diagnostics" where
  "GetAttribute_int32 v =
     (case v of
        Int32Value n \<Rightarrow> (n, [])
      | Int32Null \<Rightarrow> (0, [ErrorDiag ''Value Conversion Error'' [Text ''unhandled null value'']])
      | Int32Unknown \<Rightarrow>
          (0, [ErrorDiag ''Value Conversion Error'' [Text ''unhandled unknown value'']]))"

fun ValueStringPointer :: "types_String \<Rightarrow> string option" where
  "ValueStringPointer StringNull = None"
| "ValueStringPointer StringUnknown = Some []"
| "ValueStringPointer (StringValue s) = Some s"

subsection \<open>Plan reconciliation\<close>

definition markValueWillChange :: "SecretResourceModel \<Rightarrow> SecretResourceModel" where
  "markValueWillChange plan =
     plan\<lparr>ID := StringUnknown, ResourceID := StringUnknown, Version := StringUnknown\<rparr>"

text \<open>
  \<^verbatim>\<open>ModifyPlan\<close>: the arguments are the configuration and the prior state of the request
  and the proposed plan the response starts from; the result is the plan of the
  response. The diagnostics that \<^verbatim>\<open>SetAttribute\<close> returns are dropped by the source.
\<close>

definition ModifyPlan ::
  "SecretResourceModel option \<Rightarrow> SecretResourceModel option \<Rightarrow> SecretResourceModel \<Rightarrow>
   SecretResourceModel" where
  "ModifyPlan reqConfig reqState plan =
     (case reqConfig of
        None \<Rightarrow> plan
      | Some config \<Rightarrow>
          (case reqState of
             None \<Rightarrow> plan
           | Some state \<Rightarrow>
               if ValueWO config = StringNull \<or> ValueWOVersion config = Int32Null then plan
               else if ValueWO config = StringUnknown then markValueWillChange plan
               else if ValueWOVersion config \<noteq> ValueWOVersion state then markValueWillChange plan
               else plan\<lparr>ID := StringValue (ValueString (ID state)),
                         ResourceID := StringValue (ValueString (ResourceID state)),
                         Version := StringValue (ValueString (Version state))\<rparr>))"

subsection \<open>Update\<close>

text \<open>
  \<^verbatim>\<open>ElementsAs\<close> into a \<^verbatim>\<open>map[string]*string\<close>: a null map gives the nil map, a null
  element a nil pointer; an unknown map or element is an error, after which the caller
  does not use the map.
\<close>

definition toMap :: "types_Map \<Rightarrow> tags option \<times> Diagnostics" where
  "toMap m =
     (case m of
        MapNull \<Rightarrow> (None, [])
      | MapUnknown \<Rightarrow>
          (Some [], [ErrorDiag ''Value Conversion Error'' [Text ''unhandled unknown value'']])
      | MapValue elems \<Rightarrow>
          if list_ex (\<lambda>(k, v). v = StringUnknown) elems
          then (Some [], [ErrorDiag ''Value Conversion Error'' [Text ''unhandled unknown value'']])
          else (Some (map (\<lambda>(k, v). (k, ValueStringPointer v)) elems), []))"

definition zeroTime :: Time where
  "zeroTime = \<lparr>instant = - 62135596800000000000, location = ''UTC''\<rparr>"

definition ValueRFC3339Time :: "RFC3339 \<Rightarrow> Time \<times> Diagnostics" where
  "ValueRFC3339Time v =
     (case v of
        RFC3339Value t \<Rightarrow> (t, [])
      | RFC3339Null \<Rightarrow>
          (zeroTime, [ErrorDiag ''RFC3339 ValueRFC3339Time Error'' [Text ''RFC3339 string value is null'']])
      | RFC3339Unknown \<Rightarrow>
          (zeroTime, [ErrorDiag ''RFC3339 ValueRFC3339Time Error'' [Text ''RFC3339 string value is unknown'']]))"

definition buildSecretAttributes ::
  "SecretResourceModel \<Rightarrow> SecretAttributes \<times> Diagnostics" where
  "buildSecretAttributes model =
     (let attrs0 = \<lparr>Created = None, NotBefore = None, Expires = None\<rparr>;
          (attrs1, diags1) =
             (if ExpirationDate model \<noteq> RFC3339Null
              then let (expires, expiresDiags) = ValueRFC3339Time (ExpirationDate model)
                   in (attrs0\<lparr>Expires := Some expires\<rparr>, Append [] expiresDiags)
              else (attrs0, []));
          (attrs2, diags2) =
             (if NotBeforeDate model \<noteq> RFC3339Null
              then let (notBefore, notBeforeDiags) = ValueRFC3339Time (NotBeforeDate model)
                   in (attrs1\<lparr>NotBefore := Some notBefore\<rparr>, Append diags1 notBeforeDiags)
              else (attrs1, diags1))
      in (attrs2, diags2))"

text \<open>
  The calls \<^verbatim>\<open>Update\<close> makes on its client are recorded next to the response, in the
  order they are made. The state of the response starts as the prior state and is
  replaced by \<^verbatim>\<open>resp.State.Set\<close>. \<^verbatim>\<open>Update\<close> either returns with its response, or it
  panics (in the client, or in \<^verbatim>\<open>setSecretData\<close> on what the client answered) after the
  calls made so far.
\<close>

datatype Call =
  SetSecretCall string string SetSecretParameters
| UpdateSecretPropertiesCall string string string UpdateSecretPropertiesParameters

record UpdateResponse =
  resp_Diagnostics :: Diagnostics
  resp_State :: SecretResourceModel
  resp_calls :: "Call list"

datatype UpdateOutcome = Returned UpdateResponse | Panicked "Call list"

fun calls_of :: "UpdateOutcome \<Rightarrow> Call list" where
  "calls_of (Returned r) = resp_calls r"
| "calls_of (Panicked made) = made"

definition Update ::
  "Client \<Rightarrow> SecretResourceModel \<Rightarrow> SecretResourceModel \<Rightarrow> SecretResourceModel \<Rightarrow>
   UpdateOutcome" where
  "Update c reqPlan reqConfig reqState =
     (let model = reqPlan;
          (secretValue, d1) = GetAttribute_string (ValueWO reqConfig);
          (valueWOVersion, d2) = GetAttribute_int32 (ValueWOVersion reqState);
          diags0 = Append (Append [] d1) d2
      in if HasError diags0
         then Returned \<lparr>resp_Diagnostics = diags0, resp_State = reqState, resp_calls = []\<rparr>
         else
           let (tgs, d3) = toMap (Tags model);
               (attrs, d4) = buildSecretAttributes model;
               diags1 = Append (Append diags0 d3) d4
           in if HasError diags1
              then Returned \<lparr>resp_Diagnostics = diags1, resp_State = reqState, resp_calls = []\<rparr>
              else
                let keyVaultID = ValueString (KeyVaultID model);
                    name = ValueString (Name model)
                in if valueWOVersion \<noteq> ValueInt32 (ValueWOVersion model)
                   then
                     let diags2 = Append diags1 d4
                     in if HasError diags2
                        then Returned \<lparr>resp_Diagnostics = diags2, resp_State = reqState,
                                   resp_calls = []\<rparr>
                        else
                          let parameters =
                                \<lparr>set_Value = Some secretValue,
                                 set_ContentType = ValueStringPointer (ContentType model),
                                 set_SecretAttributes = Some attrs,
                                 set_Tags = tgs\<rparr>;
                              made = [SetSecretCall keyVaultID name parameters]
                          in case Client_SetSecret c keyVaultID name parameters of
                               Panic \<Rightarrow> Panicked made
                             | Fail err \<Rightarrow>
                                 Returned \<lparr>resp_Diagnostics =
                                         AddError diags2 ''Failed to Set Secret''
                                           (Text ''An unexpected error occurred while setting a secret: '' # err),
                                       resp_State = reqState, resp_calls = made\<rparr>
                             | Ret setResp \<Rightarrow>
                                 (case setSecretData model (prop_ID setResp) (prop_Attributes setResp)
                                         (prop_ContentType setResp) (prop_Tags setResp) of
                                    None \<Rightarrow> Panicked made
                                  | Some (d5, model') \<Rightarrow>
                                      Returned \<lparr>resp_Diagnostics = Append diags2 d5,
                                            resp_State = model', resp_calls = made\<rparr>)
                   else
                     let parameters =
                           \<lparr>upd_ContentType = ValueStringPointer (ContentType model),
                            upd_SecretAttributes = Some attrs,
                            upd_Tags = tgs\<rparr>;
                         made = [UpdateSecretPropertiesCall keyVaultID name
                                   (ValueString (Version model)) parameters]
                     in case Client_UpdateSecretProperties c keyVaultID name
                               (ValueString (Version model)) parameters of
                          Panic \<Rightarrow> Panicked made
                        | Fail err \<Rightarrow>
                            Returned \<lparr>resp_Diagnostics =
                                    AddError diags1 ''Failed to Update Secret Properties''
                                      (Text ''An unexpected error occurred while updating secret properties: '' # err),
                                  resp_State = reqState, resp_calls = made\<rparr>
                        | Ret updateResp \<Rightarrow>
                            (case setSecretData model (prop_ID updateResp)
                                    (prop_Attributes updateResp) (prop_ContentType updateResp)
                                    (prop_Tags updateResp) of
                               None \<Rightarrow> Panicked made
                             | Some (d5, model') \<Rightarrow>
                                 Returned \<lparr>resp_Diagnostics = Append diags1 d5,
                                       resp_State = model', resp_calls = made\<rparr>))"

subsection \<open>Import\<close>

text \<open>
  \<^verbatim>\<open>ImportState\<close>: the arguments are the client, the string identifier of the request,
  its structured identity (\<open>None\<close> when the raw identity is null) and the state the
  response starts from. The result is the diagnostics and the state of the response;
  \<open>None\<close> is a panic. \<^verbatim>\<open>ImportStatePassthroughID\<close> stores the string identifier under
  \<^verbatim>\<open>id\<close>; storing a nil \<^verbatim>\<open>*azsecrets.ID\<close> stores null. The \<^verbatim>\<open>SetAttribute\<close> calls address
  attributes of the schema with values of their types and add no diagnostics.
\<close>

definition ImportState ::
  "Client \<Rightarrow> string \<Rightarrow> SecretResourceIdentityModel option \<Rightarrow> SecretResourceModel \<Rightarrow>
   (Diagnostics \<times> SecretResourceModel) option" where
  "ImportState c reqID reqIdentity state0 =
     (case reqIdentity of
        Some identity \<Rightarrow>
          let name = ValueString (identity_Name identity);
              keyVaultID = ValueString (identity_KeyVaultID identity)
          in (case Client_GetSecretProperties c keyVaultID name [] of
                Panic \<Rightarrow> None
              | Fail err \<Rightarrow> Some (AddError [] ''Failed to Get Secret Properties'' err, state0)
              | Ret secretProperties \<Rightarrow>
                  let state1 = state0\<lparr>ID := (case prop_ID secretProperties of
                                                None \<Rightarrow> StringNull
                                              | Some i \<Rightarrow> StringValue (ID_string i))\<rparr>;
                      state2 = state1\<lparr>Name := StringValue name\<rparr>;
                      state3 = state2\<lparr>KeyVaultID := StringValue keyVaultID\<rparr>
                  in Some ([], state3\<lparr>ValueWOVersion := Int32Value 1\<rparr>))
      | None \<Rightarrow>
          let state1 = state0\<lparr>ID := StringValue reqID\<rparr>
          in if Client_GetSubscriptionID c = []
             then Some (AddError [] ''Missing Configuration''
                          [Text ''Subscription ID is required to import a secret''], state1)
             else
               (case extractVaultNameAndName reqID of
                  Inl err \<Rightarrow> Some (AddError [] ''Invalid ID'' err, state1)
                | Inr (vaultName, name) \<Rightarrow>
                    let state2 = state1\<lparr>Name := StringValue name\<rparr>
                    in (case Client_GetKeyVaultID c vaultName of
                          Panic \<Rightarrow> None
                        | Fail err \<Rightarrow>
                            let state3 = state2\<lparr>KeyVaultID := StringValue []\<rparr>
                            in Some (AddError [] ''Failed to Get KeyVaults'' err,
                                     state3\<lparr>ValueWOVersion := Int32Value 1\<rparr>)
                        | Ret keyVaultID \<Rightarrow>
                            let state3 = state2\<lparr>KeyVaultID := StringValue keyVaultID\<rparr>
                            in Some ([], state3\<lparr>ValueWOVersion := Int32Value 1\<rparr>))))"

section \<open>Notions used by the statements\<close>

text \<open>The instant of an entry's \<^verbatim>\<open>Created\<close> timestamp, when both pointers are set.\<close>

definition createdOf :: "SecretProperties \<Rightarrow> int option" where
  "createdOf s =
     (case prop_Attributes s of
        None \<Rightarrow> None
      | Some a \<Rightarrow> (case Created a of None \<Rightarrow> None | Some t \<Rightarrow> Some (instant t)))"

text \<open>
  The value of \<^verbatim>\<open>latestSecretProperties\<close> after a run of entries that are all kept in
  the running (no early return, no panic).
\<close>

fun latestOf :: "SecretProperties option \<Rightarrow> SecretProperties list \<Rightarrow> SecretProperties option" where
  "latestOf latest [] = latest"
| "latestOf None (s # rest) = latestOf (Some s) rest"
| "latestOf (Some l) (s # rest) =
     latestOf (if createdAfter s l = Some True then Some s else Some l) rest"

text \<open>
  The relation between the three identifiers of a record that the data model states:
  the versioned identifier is the versionless one, a slash and the version.
\<close>

definition versionedID_invariant :: "'a SecretDataSourceModel_scheme \<Rightarrow> bool" where
  "versionedID_invariant s =
     (ValueString (ID s) = ValueString (VersionlessID s) @ ''/'' @ ValueString (Version s))"

text \<open>
  The filter that \<^verbatim>\<open>GetKeyVaultID\<close> sends to the resource directory for a vault name, and
  the end of the message of its not-found error, which names the permission to read
  vaults.
\<close>

definition vaultsFilter :: "string \<Rightarrow> string" where
  "vaultsFilter vaultName =
     ''resourceType eq '' @ [apostrophe] @ ''Microsoft.KeyVault/vaults'' @ [apostrophe]
     @ '' and name eq '' @ [apostrophe] @ vaultName @ [apostrophe]"

definition permissionHint :: string where
  "permissionHint =
     '' not found; make sure that the key vault name is correct and that you have the ''
     @ [quotation] @ ''Microsoft.KeyVault/vaults/read'' @ [quotation] @ '' permission''"

section \<open>Example values\<close>

definition example_keyVaultID :: string where
  "example_keyVaultID =
     ''/subscriptions/sub1/resourceGroups/rg1/providers/Microsoft.KeyVault/vaults/myvault''"

definition example_secret :: "string \<Rightarrow> int \<Rightarrow> SecretProperties" where
  "example_secret v n =
     \<lparr>prop_ID = Some \<lparr>ID_string = ''https://myvault.vault.azure.net/secrets/s1/'' @ v,
                       ID_Name = Some ''s1'', ID_Version = v\<rparr>,
      prop_Attributes = Some \<lparr>Created = Some \<lparr>instant = n, location = ''UTC''\<rparr>,
                               NotBefore = None, Expires = None\<rparr>,
      prop_ContentType = None,
      prop_Tags = None\<rparr>"

text \<open>
  A client on the subscription \<open>sub1\<close> whose vault \<open>myvault\<close> lists the given pages of
  versions for the secret \<open>s1\<close>, and whose resource directory lists the given pages of
  vaults.
\<close>

definition example_client ::
  "(error + SecretProperties list) list \<Rightarrow> (error + string option list) list \<Rightarrow> client" where
  "example_client versions vaults =
     \<lparr>subscriptionID = ''sub1'',
      NewClient = (\<lambda>url. None),
      NewListSecretPropertiesVersionsPager =
        (\<lambda>url name. if url = ''https://myvault.vault.azure.net'' \<and> name = ''s1''
                     then versions else [Inr []]),
      sdk_SetSecret = (\<lambda>url name parameters. Inl [Text ''unavailable'']),
      sdk_UpdateSecretProperties = (\<lambda>url name version parameters. Inl [Text ''unavailable'']),
      NewListPager = (\<lambda>filter. vaults)\<rparr>"

definition example_pages :: "SecretProperties list list" where
  "example_pages =
     [[example_secret ''v1'' 5, example_secret ''v2'' 9], [], [example_secret ''v3'' 9]]"

definition example_model :: SecretResourceModel where
  "example_model =
     \<lparr>Name = StringValue ''s1'',
      KeyVaultID = StringValue example_keyVaultID,
      ID = StringValue ''https://myvault.vault.azure.net/secrets/s1/v1'',
      VersionlessID = StringValue ''https://myvault.vault.azure.net/secrets/s1'',
      ContentType = StringValue ''text/plain'',
      NotBeforeDate = RFC3339Value \<lparr>instant = 100, location = ''UTC''\<rparr>,
      ExpirationDate = RFC3339Value \<lparr>instant = 200, location = ''UTC''\<rparr>,
      Version = StringValue ''v1'',
      ResourceID = StringValue (example_keyVaultID @ ''/secrets/s1/versions/v1''),
      ResourceVersionlessID = StringValue (example_keyVaultID @ ''/secrets/s1''),
      Tags = MapValue [(''environment'', StringValue ''test'')],
      ValueWO = StringNull,
      ValueWOVersion = Int32Value 1\<rparr>"

definition example_ID :: "string \<Rightarrow> azsecrets_ID" where
  "example_ID v =
     \<lparr>ID_string = ''https://myvault.vault.azure.net/secrets/s1/'' @ v,
      ID_Name = Some ''s1'', ID_Version = v\<rparr>"

definition example_versionless_ID :: azsecrets_ID where
  "example_versionless_ID =
     \<lparr>ID_string = ''https://myvault.vault.azure.net/secrets/s1'',
      ID_Name = Some ''s1'', ID_Version = []\<rparr>"

text \<open>An identifier that is the URL of the vault alone: it has no name segment.\<close>

definition example_nameless_ID :: azsecrets_ID where
  "example_nameless_ID =
     \<lparr>ID_string = ''https://myvault.vault.azure.net'', ID_Name = None, ID_Version = []\<rparr>"

definition example_attributes :: SecretAttributes where
  "example_attributes = \<lparr>Created = None, NotBefore = None, Expires = None\<rparr>"

text \<open>
  A configuration and a proposed plan for the example record with the rotation counter
  \<open>n\<close>: the configuration holds the write-only value and no computed attribute; the
  proposed plan holds the three version-dependent attributes as unknown.
\<close>

definition example_config :: "32 word \<Rightarrow> SecretResourceModel" where
  "example_config n =
     example_model\<lparr>ID := StringNull, VersionlessID := StringNull, Version := StringNull,
                   ResourceID := StringNull, ResourceVersionlessID := StringNull,
                   ValueWO := StringValue ''secret-value'', ValueWOVersion := Int32Value n\<rparr>"

definition example_plan :: "32 word \<Rightarrow> SecretResourceModel" where
  "example_plan n =
     example_model\<lparr>ID := StringUnknown, Version := StringUnknown, ResourceID := StringUnknown,
                   ValueWOVersion := Int32Value n\<rparr>"






text \<open>The state an import starts from: every attribute null.\<close>

definition empty_state :: SecretResourceModel where
  "empty_state =
     \<lparr>Name = StringNull, KeyVaultID = StringNull, ID = StringNull, VersionlessID = StringNull,
      ContentType = StringNull, NotBeforeDate = RFC3339Null, ExpirationDate = RFC3339Null,
      Version = StringNull, ResourceID = StringNull, ResourceVersionlessID = StringNull,
      Tags = MapNull, ValueWO = StringNull, ValueWOVersion = Int32Null\<rparr>"

definition example_identity :: SecretResourceIdentityModel where
  "example_identity =
     \<lparr>identity_Name = StringValue ''s1'', identity_KeyVaultID = StringValue example_keyVaultID\<rparr>"

section \<open>Version resolver\<close>

lemma extractVaultName_example: "extractVaultName example_keyVaultID = Inr ''myvault''"
  by (simp add: example_keyVaultID_def extractVaultName_def keyVaultIDRegex_def dot_def
      notSlashPlus_def slash_def newline_def byte_def)

lemma getSecretClient_example:
  "getSecretClient (example_client vs ks) example_keyVaultID
     = Inr ''https://myvault.vault.azure.net''"
  by (simp add: getSecretClient_def extractVaultName_example example_client_def)

text \<open>
  C1 (explicit-version lookup returns an entry only on an exact match of the version).
  The vault lists the versions \<open>v1\<close> and \<open>v2\<close> of the secret, in this order, and the
  caller asks for \<open>v2\<close>. The loop compares with \<^verbatim>\<open>!=\<close> and returns the first entry whose
  version differs from the requested one: the result is the entry of \<open>v1\<close>, although the
  entry of \<open>v2\<close> is in the listing.
\<close>

theorem C1_explicit_version_returns_other_version:
  "GetSecretProperties
     (example_client [Inr [example_secret ''v1'' 1, example_secret ''v2'' 2]] [])
     example_keyVaultID ''s1'' ''v2''
   = Ret (example_secret ''v1'' 1)"
  by (simp add: GetSecretProperties_def getSecretClient_example)
     (simp add: example_client_def example_secret_def)

lemma createdAfter_Some:
  "createdOf s = Some t \<Longrightarrow> createdOf l = Some u \<Longrightarrow> createdAfter s l = Some (u < t)"
  by (auto simp: createdOf_def createdAfter_def After_def split: option.splits)

lemma scanPage_latest:
  "\<forall>s \<in> set es. createdOf s \<noteq> None \<Longrightarrow> (\<forall>l. latest = Some l \<longrightarrow> createdOf l \<noteq> None) \<Longrightarrow>
   scanPage [] latest es = Ret (Inr (latestOf latest es))"
proof (induction es arbitrary: latest)
  case Nil
  then show ?case by simp
next
  case (Cons e es)
  show ?case
  proof (cases latest)
    case None
    with Cons show ?thesis by simp
  next
    case (Some l)
    from Cons.prems Some obtain t u where tu: "createdOf e = Some t" "createdOf l = Some u"
      by auto
    have ca: "createdAfter e l = Some (u < t)" by (rule createdAfter_Some[OF tu])
    show ?thesis
    proof (cases "u < t")
      case True
      have "scanPage [] (Some e) es = Ret (Inr (latestOf (Some e) es))"
        using Cons.prems by (intro Cons.IH) auto
      with Some ca True show ?thesis by simp
    next
      case False
      have "scanPage [] (Some l) es = Ret (Inr (latestOf (Some l) es))"
        using Cons.prems Some by (intro Cons.IH) auto
      with Some ca False show ?thesis by simp
    qed
  qed
qed

lemma latestOf_created:
  "\<forall>s \<in> set es. createdOf s \<noteq> None \<Longrightarrow> (\<forall>l. latest = Some l \<longrightarrow> createdOf l \<noteq> None) \<Longrightarrow>
   latestOf latest es = Some r \<Longrightarrow> createdOf r \<noteq> None"
proof (induction latest es rule: latestOf.induct)
  case (1 latest)
  then show ?case by simp
next
  case (2 s rest)
  then show ?case by simp
next
  case (3 l s rest)
  then show ?case by (simp split: if_splits)
qed

lemma latestOf_append: "latestOf (latestOf latest p) q = latestOf latest (p @ q)"
  by (induction latest p rule: latestOf.induct) auto

lemma scanPages_latest:
  "\<forall>s \<in> set (concat pages). createdOf s \<noteq> None \<Longrightarrow>
   (\<forall>l. latest = Some l \<longrightarrow> createdOf l \<noteq> None) \<Longrightarrow>
   scanPages [] latest (map Inr pages) = Ret (Inr (latestOf latest (concat pages)))"
proof (induction pages arbitrary: latest)
  case Nil
  then show ?case by simp
next
  case (Cons p ps)
  have p: "scanPage [] latest p = Ret (Inr (latestOf latest p))"
    using Cons.prems by (intro scanPage_latest) auto
  have "\<forall>l. latestOf latest p = Some l \<longrightarrow> createdOf l \<noteq> None"
    using latestOf_created[of p latest] Cons.prems by auto
  then have "scanPages [] (latestOf latest p) (map Inr ps)
        = Ret (Inr (latestOf (latestOf latest p) (concat ps)))"
    using Cons.prems by (intro Cons.IH) auto
  then show ?case using p by (simp add: latestOf_append)
qed

text \<open>
  The running maximum: starting from a kept entry \<open>l\<close>, the entry kept after the run is
  \<open>l\<close> itself or an entry of the run that is strictly later than \<open>l\<close> and than every
  entry before it; no entry of the run is later than it.
\<close>

lemma latestOf_Some_first_max:
  "\<forall>s \<in> set es. createdOf s \<noteq> None \<Longrightarrow> createdOf l = Some tp \<Longrightarrow>
   \<exists>r tr. latestOf (Some l) es = Some r \<and> createdOf r = Some tr \<and> tp \<le> tr \<and>
     (\<forall>j < length es. \<exists>u. createdOf (es ! j) = Some u \<and> u \<le> tr) \<and>
     ((r = l \<and> tr = tp) \<or>
      (\<exists>i < length es. r = es ! i \<and> tp < tr \<and>
         (\<forall>j < i. \<exists>u. createdOf (es ! j) = Some u \<and> u < tr)))"
proof (induction es arbitrary: l tp)
  case Nil
  then show ?case by simp
next
  case (Cons e es)
  from Cons.prems obtain tc where tc: "createdOf e = Some tc" by auto
  have ca: "createdAfter e l = Some (tp < tc)"
    by (rule createdAfter_Some[OF tc Cons.prems(2)])
  have all: "\<forall>s \<in> set es. createdOf s \<noteq> None" using Cons.prems by simp
  show ?case
  proof (cases "tp < tc")
    case True
    from Cons.IH[OF all tc] obtain r tr where r:
      "latestOf (Some e) es = Some r" "createdOf r = Some tr" "tc \<le> tr"
      "\<forall>j < length es. \<exists>u. createdOf (es ! j) = Some u \<and> u \<le> tr"
      "(r = e \<and> tr = tc) \<or>
       (\<exists>i < length es. r = es ! i \<and> tc < tr \<and>
          (\<forall>j < i. \<exists>u. createdOf (es ! j) = Some u \<and> u < tr))"
      by blast
    have l1: "latestOf (Some l) (e # es) = Some r" using ca True r(1) by simp
    have l2: "\<forall>j < length (e # es). \<exists>u. createdOf ((e # es) ! j) = Some u \<and> u \<le> tr"
      using r(3,4) tc by (auto simp: nth_Cons split: nat.splits)
    have l3: "\<exists>i < length (e # es). r = (e # es) ! i \<and> tp < tr \<and>
                (\<forall>j < i. \<exists>u. createdOf ((e # es) ! j) = Some u \<and> u < tr)"
    proof (rule disjE[OF r(5)])
      assume "r = e \<and> tr = tc"
      then have "r = (e # es) ! 0 \<and> tp < tr" using True by simp
      then show ?thesis by (intro exI[of _ 0]) simp
    next
      assume "\<exists>i < length es. r = es ! i \<and> tc < tr \<and>
                (\<forall>j < i. \<exists>u. createdOf (es ! j) = Some u \<and> u < tr)"
      then obtain i where i: "i < length es" "r = es ! i" "tc < tr"
        "\<forall>j < i. \<exists>u. createdOf (es ! j) = Some u \<and> u < tr" by blast
      have "\<forall>j < Suc i. \<exists>u. createdOf ((e # es) ! j) = Some u \<and> u < tr"
        using i(3,4) tc by (auto simp: nth_Cons split: nat.splits)
      then show ?thesis using i True by (intro exI[of _ "Suc i"]) auto
    qed
    from l1 r(2) r(3) True l2 l3 show ?thesis by (intro exI[of _ r] exI[of _ tr]) auto
  next
    case False
    from Cons.IH[OF all Cons.prems(2)] obtain r tr where r:
      "latestOf (Some l) es = Some r" "createdOf r = Some tr" "tp \<le> tr"
      "\<forall>j < length es. \<exists>u. createdOf (es ! j) = Some u \<and> u \<le> tr"
      "(r = l \<and> tr = tp) \<or>
       (\<exists>i < length es. r = es ! i \<and> tp < tr \<and>
          (\<forall>j < i. \<exists>u. createdOf (es ! j) = Some u \<and> u < tr))"
      by blast
    have l1: "latestOf (Some l) (e # es) = Some r" using ca False r(1) by simp
    have l2: "\<forall>j < length (e # es). \<exists>u. createdOf ((e # es) ! j) = Some u \<and> u \<le> tr"
      using r(3,4) tc False by (auto simp: nth_Cons split: nat.splits)
    have l3: "(r = l \<and> tr = tp) \<or> (\<exists>i < length (e # es). r = (e # es) ! i \<and> tp < tr \<and>
                (\<forall>j < i. \<exists>u. createdOf ((e # es) ! j) = Some u \<and> u < tr))"
    proof (rule disjE[OF r(5)])
      assume "r = l \<and> tr = tp"
      then show ?thesis by simp
    next
      assume "\<exists>i < length es. r = es ! i \<and> tp < tr \<and>
                (\<forall>j < i. \<exists>u. createdOf (es ! j) = Some u \<and> u < tr)"
      then obtain i where i: "i < length es" "r = es ! i" "tp < tr"
        "\<forall>j < i. \<exists>u. createdOf (es ! j) = Some u \<and> u < tr" by blast
      have "\<forall>j < Suc i. \<exists>u. createdOf ((e # es) ! j) = Some u \<and> u < tr"
        using i(3,4) tc False by (auto simp: nth_Cons split: nat.splits)
      then have "\<exists>k < length (e # es). r = (e # es) ! k \<and> tp < tr \<and>
                (\<forall>j < k. \<exists>u. createdOf ((e # es) ! j) = Some u \<and> u < tr)"
        using i by (intro exI[of _ "Suc i"]) auto
      then show ?thesis by blast
    qed
    from l1 r(2) r(3) l2 l3 show ?thesis by (intro exI[of _ r] exI[of _ tr]) auto
  qed
qed

lemma latestOf_None_first_max:
  assumes "\<forall>s \<in> set es. createdOf s \<noteq> None" and "es \<noteq> []"
  shows "\<exists>i t. i < length es \<and> latestOf None es = Some (es ! i) \<and> createdOf (es ! i) = Some t \<and>
     (\<forall>j < length es. \<exists>u. createdOf (es ! j) = Some u \<and> u \<le> t) \<and>
     (\<forall>j < i. \<exists>u. createdOf (es ! j) = Some u \<and> u < t)"
proof -
  from assms(2) obtain e rest where es: "es = e # rest" by (cases es) auto
  from assms(1) es obtain tc where tc: "createdOf e = Some tc" by auto
  have all: "\<forall>s \<in> set rest. createdOf s \<noteq> None" using assms(1) es by simp
  from latestOf_Some_first_max[OF all tc] obtain r tr where r:
    "latestOf (Some e) rest = Some r" "createdOf r = Some tr" "tc \<le> tr"
    "\<forall>j < length rest. \<exists>u. createdOf (rest ! j) = Some u \<and> u \<le> tr"
    "(r = e \<and> tr = tc) \<or>
     (\<exists>i < length rest. r = rest ! i \<and> tc < tr \<and>
        (\<forall>j < i. \<exists>u. createdOf (rest ! j) = Some u \<and> u < tr))"
    by blast
  have l2: "\<forall>j < length es. \<exists>u. createdOf (es ! j) = Some u \<and> u \<le> tr"
    using r(3,4) tc es by (auto simp: nth_Cons split: nat.splits)
  have "\<exists>i < length es. r = es ! i \<and> (\<forall>j < i. \<exists>u. createdOf (es ! j) = Some u \<and> u < tr)"
  proof (rule disjE[OF r(5)])
    assume "r = e \<and> tr = tc"
    then have "r = es ! 0" using es by simp
    then show ?thesis using es by (intro exI[of _ 0]) simp
  next
    assume "\<exists>i < length rest. r = rest ! i \<and> tc < tr \<and>
              (\<forall>j < i. \<exists>u. createdOf (rest ! j) = Some u \<and> u < tr)"
    then obtain i where i: "i < length rest" "r = rest ! i" "tc < tr"
      "\<forall>j < i. \<exists>u. createdOf (rest ! j) = Some u \<and> u < tr" by blast
    have "\<forall>j < Suc i. \<exists>u. createdOf (es ! j) = Some u \<and> u < tr"
      using i(3,4) tc es by (auto simp: nth_Cons split: nat.splits)
    then show ?thesis using i es by (intro exI[of _ "Suc i"]) auto
  qed
  then obtain i where i: "i < length es" "r = es ! i"
    "\<forall>j < i. \<exists>u. createdOf (es ! j) = Some u \<and> u < tr" by blast
  have "latestOf None es = Some (es ! i)" using r(1) es i(2) by simp
  with i r(2) l2 show ?thesis by (intro exI[of _ i] exI[of _ tr]) auto
qed

text \<open>
  C4 (omitted-version lookup returns the entry with the latest \<open>Created\<close>, ties keeping
  the first seen). With an empty version argument, when every page is fetched without
  error, the listing is not empty and every entry carries a \<open>Created\<close> timestamp, the call
  returns an entry of the listing (the pages in order, one after the other) such that no
  entry is later than it and every entry before it is strictly earlier.
\<close>

theorem C4_omitted_version_returns_first_latest:
  assumes "getSecretClient c keyVaultID = Inr url"
    and "NewListSecretPropertiesVersionsPager c url name = map Inr pages"
    and "\<forall>s \<in> set (concat pages). createdOf s \<noteq> None"
    and "concat pages \<noteq> []"
  shows "\<exists>i t. i < length (concat pages) \<and>
     GetSecretProperties c keyVaultID name [] = Ret (concat pages ! i) \<and>
     createdOf (concat pages ! i) = Some t \<and>
     (\<forall>j < length (concat pages). \<exists>u. createdOf (concat pages ! j) = Some u \<and> u \<le> t) \<and>
     (\<forall>j < i. \<exists>u. createdOf (concat pages ! j) = Some u \<and> u < t)"
proof -
  have scan: "scanPages [] None (map Inr pages) = Ret (Inr (latestOf None (concat pages)))"
    using assms(3) by (intro scanPages_latest) auto
  from latestOf_None_first_max[OF assms(3,4)] obtain i t where it:
    "i < length (concat pages)" "latestOf None (concat pages) = Some (concat pages ! i)"
    "createdOf (concat pages ! i) = Some t"
    "\<forall>j < length (concat pages). \<exists>u. createdOf (concat pages ! j) = Some u \<and> u \<le> t"
    "\<forall>j < i. \<exists>u. createdOf (concat pages ! j) = Some u \<and> u < t"
    by blast
  have "GetSecretProperties c keyVaultID name [] = Ret (concat pages ! i)"
    by (simp add: GetSecretProperties_def assms(1,2) scan it(2))
  with it show ?thesis by blast
qed

theorem C4_omitted_version_returns_first_latest_witness:
  "(\<exists>i t. i < length (concat example_pages) \<and>
     GetSecretProperties (example_client (map Inr example_pages) []) example_keyVaultID ''s1'' []
       = Ret (concat example_pages ! i) \<and>
     createdOf (concat example_pages ! i) = Some t \<and>
     (\<forall>j < length (concat example_pages).
        \<exists>u. createdOf (concat example_pages ! j) = Some u \<and> u \<le> t) \<and>
     (\<forall>j < i. \<exists>u. createdOf (concat example_pages ! j) = Some u \<and> u < t))
   \<and> GetSecretProperties (example_client (map Inr example_pages) []) example_keyVaultID ''s1'' []
       = Ret (example_secret ''v2'' 9)"
proof -
  have h1: "getSecretClient (example_client (map Inr example_pages) []) example_keyVaultID
              = Inr ''https://myvault.vault.azure.net''"
    by (rule getSecretClient_example)
  have h2: "NewListSecretPropertiesVersionsPager (example_client (map Inr example_pages) [])
              ''https://myvault.vault.azure.net'' ''s1'' = map Inr example_pages"
    by (simp add: example_client_def)
  have h3: "\<forall>s \<in> set (concat example_pages). createdOf s \<noteq> None"
    by (simp add: example_pages_def example_secret_def createdOf_def)
  have h4: "concat example_pages \<noteq> []"
    by (simp add: example_pages_def)
  have ev: "GetSecretProperties (example_client (map Inr example_pages) []) example_keyVaultID
              ''s1'' [] = Ret (example_secret ''v2'' 9)"
    by (simp add: GetSecretProperties_def h1 h2)
       (simp add: example_pages_def example_secret_def createdAfter_def After_def)
  from C4_omitted_version_returns_first_latest[OF h1 h2 h3 h4] ev show ?thesis by blast
qed

section \<open>Secret record builder: derived identifiers and frame\<close>

text \<open>
  When \<^verbatim>\<open>setSecretData\<close> panics, and when it returns: it returns exactly for an identifier
  that is not nil and has a name segment, with attributes that are not nil.
\<close>

lemma setSecretData_panics:
  "ident = None \<or> (\<exists>i. ident = Some i \<and> ID_Name i = None) \<or> attrs = None \<Longrightarrow>
   setSecretData s ident attrs ct tg = None"
  by (auto simp: setSecretData_def Let_def split: option.splits)

lemma setSecretData_returns:
  "ID_Name i = Some nm \<Longrightarrow> \<exists>d s'. setSecretData s (Some i) (Some a) ct tg = Some (d, s')"
  by (simp add: setSecretData_def Let_def MapValueFrom_def HasError_def split: option.splits)

lemma setSecretData_identifiers:
  assumes "setSecretData s (Some i) (Some a) ct tg = Some (d, s')"
  shows "ID s' = StringValue (ID_string i)"
    and "VersionlessID s' = StringValue (TrimSuffix (ID_string i) (''/'' @ ID_Version i))"
    and "Version s' = StringValue (ID_Version i)"
    and "\<exists>nm. ID_Name i = Some nm \<and>
           ResourceVersionlessID s'
             = StringValue (ValueString (KeyVaultID s) @ ''/secrets/'' @ nm) \<and>
           ResourceID s'
             = StringValue (ValueString (KeyVaultID s) @ ''/secrets/'' @ nm
                            @ ''/versions/'' @ ID_Version i)"
  using assms
  by (auto simp: setSecretData_def Let_def MapValueFrom_def HasError_def GetKeyVaultID_model_def
      split: option.splits)

lemma setSecretData_frame:
  assumes "setSecretData s (Some i) (Some a) ct tg = Some (d, s')"
  shows "ct = None \<longrightarrow> ContentType s' = ContentType s"
    and "NotBefore a = None \<longrightarrow> NotBeforeDate s' = NotBeforeDate s"
    and "Expires a = None \<longrightarrow> ExpirationDate s' = ExpirationDate s"
    and "tg = None \<longrightarrow> Tags s' = Tags s"
    and "KeyVaultID s' = KeyVaultID s" and "Name s' = Name s"
  using assms
  by (auto simp: setSecretData_def Let_def MapValueFrom_def HasError_def
      split: option.splits)

lemma TrimSuffix_append: "HasSuffix s x \<Longrightarrow> TrimSuffix s x @ x = s"
  by (simp add: TrimSuffix_def HasSuffix_def) (metis append_take_drop_id)

lemma TrimSuffix_no: "\<not> HasSuffix s x \<Longrightarrow> TrimSuffix s x = s"
  by (simp add: TrimSuffix_def)

text \<open>
  C5, as amended (derived identifiers after \<^verbatim>\<open>setSecretData\<close>). A call panics when the
  identifier is nil or has no name segment, or when the attributes are nil. Every other
  call returns, and afterwards: \<open>id\<close> is the raw identifier and \<open>version\<close> its version; when
  the raw identifier ends with a slash and the version, \<open>id\<close> is \<open>versionless_id\<close>, a slash
  and \<open>version\<close>; otherwise nothing is stripped and \<open>versionless_id\<close> is \<open>id\<close>;
  \<open>resource_versionless_id\<close> is the vault identifier of the model, \<open>/secrets/\<close> and the
  secret name; \<open>resource_id\<close> is \<open>resource_versionless_id\<close>, \<open>/versions/\<close> and \<open>version\<close>.
\<close>

theorem C5_derived_identifiers:
  "(ident = None \<or> (\<exists>i. ident = Some i \<and> ID_Name i = None) \<or> attrs = None \<longrightarrow>
      setSecretData s ident attrs ct tg = None)
   \<and> (\<forall>i nm a. ident = Some i \<and> ID_Name i = Some nm \<and> attrs = Some a \<longrightarrow>
        (\<exists>d s'. setSecretData s ident attrs ct tg = Some (d, s') \<and>
           ID s' = StringValue (ID_string i) \<and>
           Version s' = StringValue (ID_Version i) \<and>
           (HasSuffix (ID_string i) (''/'' @ ID_Version i) \<longrightarrow> versionedID_invariant s') \<and>
           (\<not> HasSuffix (ID_string i) (''/'' @ ID_Version i) \<longrightarrow> VersionlessID s' = ID s') \<and>
           ResourceVersionlessID s'
             = StringValue (ValueString (KeyVaultID s) @ ''/secrets/'' @ nm) \<and>
           ResourceID s'
             = StringValue (ValueString (ResourceVersionlessID s') @ ''/versions/''
                            @ ValueString (Version s'))))"
proof (intro conjI impI allI)
  assume "ident = None \<or> (\<exists>i. ident = Some i \<and> ID_Name i = None) \<or> attrs = None"
  then show "setSecretData s ident attrs ct tg = None" by (rule setSecretData_panics)
next
  fix i nm a
  assume h: "ident = Some i \<and> ID_Name i = Some nm \<and> attrs = Some a"
  then obtain d s' where
    r: "setSecretData s (Some i) (Some a) ct tg = Some (d, s')"
    using setSecretData_returns[of i nm s a ct tg] by blast
  note ids = setSecretData_identifiers(1-3)[OF r]
  from setSecretData_identifiers(4)[OF r] h have res:
    "ResourceVersionlessID s' = StringValue (ValueString (KeyVaultID s) @ ''/secrets/'' @ nm)"
    "ResourceID s' = StringValue (ValueString (KeyVaultID s) @ ''/secrets/'' @ nm
                                  @ ''/versions/'' @ ID_Version i)"
    by auto
  have inv: "HasSuffix (ID_string i) (''/'' @ ID_Version i) \<longrightarrow> versionedID_invariant s'"
    using TrimSuffix_append[of "ID_string i" "''/'' @ ID_Version i"]
    by (auto simp: versionedID_invariant_def ids)
  have no: "\<not> HasSuffix (ID_string i) (''/'' @ ID_Version i) \<longrightarrow> VersionlessID s' = ID s'"
    by (simp add: ids TrimSuffix_no)
  show "\<exists>d s'. setSecretData s ident attrs ct tg = Some (d, s') \<and>
           ID s' = StringValue (ID_string i) \<and>
           Version s' = StringValue (ID_Version i) \<and>
           (HasSuffix (ID_string i) (''/'' @ ID_Version i) \<longrightarrow> versionedID_invariant s') \<and>
           (\<not> HasSuffix (ID_string i) (''/'' @ ID_Version i) \<longrightarrow> VersionlessID s' = ID s') \<and>
           ResourceVersionlessID s'
             = StringValue (ValueString (KeyVaultID s) @ ''/secrets/'' @ nm) \<and>
           ResourceID s'
             = StringValue (ValueString (ResourceVersionlessID s') @ ''/versions/''
                            @ ValueString (Version s'))"
    using r h inv no by (intro exI[of _ d] exI[of _ s']) (simp add: ids res)
qed

theorem C5_derived_identifiers_witness:
  "setSecretData example_model (Some example_nameless_ID) (Some example_attributes) None None
     = None
   \<and> (\<exists>d s'. setSecretData example_model (Some (example_ID ''v2'')) (Some example_attributes)
             None None = Some (d, s') \<and>
     ID s' = StringValue ''https://myvault.vault.azure.net/secrets/s1/v2'' \<and>
     Version s' = StringValue ''v2'' \<and>
     versionedID_invariant s' \<and>
     ResourceVersionlessID s' = StringValue (example_keyVaultID @ ''/secrets/s1'') \<and>
     ResourceID s' = StringValue (example_keyVaultID @ ''/secrets/s1/versions/v2''))"
proof -
  have p: "Some example_nameless_ID = None
           \<or> (\<exists>i. Some example_nameless_ID = Some i \<and> ID_Name i = None)
           \<or> Some example_attributes = None"
    by (simp add: example_nameless_ID_def)
  have panic: "setSecretData example_model (Some example_nameless_ID) (Some example_attributes)
                 None None = None"
    using C5_derived_identifiers
            [of "Some example_nameless_ID" "Some example_attributes" example_model None None] p
    by blast
  have g: "Some (example_ID ''v2'') = Some (example_ID ''v2'')
           \<and> ID_Name (example_ID ''v2'') = Some ''s1''
           \<and> Some example_attributes = Some example_attributes"
    by (simp add: example_ID_def)
  have h: "HasSuffix (ID_string (example_ID ''v2'')) (''/'' @ ID_Version (example_ID ''v2''))"
    by (simp add: example_ID_def HasSuffix_def)
  from C5_derived_identifiers
         [of "Some (example_ID ''v2'')" "Some example_attributes" example_model None None] g
  obtain d s' where r:
    "setSecretData example_model (Some (example_ID ''v2'')) (Some example_attributes)
             None None = Some (d, s')"
    "ID s' = StringValue (ID_string (example_ID ''v2''))"
    "Version s' = StringValue (ID_Version (example_ID ''v2''))"
    "HasSuffix (ID_string (example_ID ''v2'')) (''/'' @ ID_Version (example_ID ''v2''))
       \<longrightarrow> versionedID_invariant s'"
    "ResourceVersionlessID s'
       = StringValue (ValueString (KeyVaultID example_model) @ ''/secrets/'' @ ''s1'')"
    "ResourceID s'
       = StringValue (ValueString (ResourceVersionlessID s') @ ''/versions/''
                      @ ValueString (Version s'))"
    by blast
  have "\<exists>d s'. setSecretData example_model (Some (example_ID ''v2'')) (Some example_attributes)
             None None = Some (d, s') \<and>
     ID s' = StringValue ''https://myvault.vault.azure.net/secrets/s1/v2'' \<and>
     Version s' = StringValue ''v2'' \<and>
     versionedID_invariant s' \<and>
     ResourceVersionlessID s' = StringValue (example_keyVaultID @ ''/secrets/s1'') \<and>
     ResourceID s' = StringValue (example_keyVaultID @ ''/secrets/s1/versions/v2'')"
    using r h by (intro exI[of _ d] exI[of _ s']) (simp add: example_ID_def example_model_def)
  with panic show ?thesis by simp
qed

text \<open>
  C5 as stated fails for an identifier without a version segment, for which the SDK's
  \<^verbatim>\<open>Version()\<close> is empty: the suffix \<open>/\<close> is not there to strip, and \<open>id\<close> is not
  \<open>versionless_id\<close> followed by a slash.
\<close>

theorem C5_versionless_identifier_counterexample:
  "setSecretData example_model (Some example_versionless_ID) (Some example_attributes) None None
     = Some ([], example_model
                   \<lparr>ID := StringValue ''https://myvault.vault.azure.net/secrets/s1'',
                    VersionlessID := StringValue ''https://myvault.vault.azure.net/secrets/s1'',
                    Version := StringValue [],
                    ResourceID := StringValue (example_keyVaultID @ ''/secrets/s1/versions/'')\<rparr>)
   \<and> \<not> versionedID_invariant
          (example_model
             \<lparr>ID := StringValue ''https://myvault.vault.azure.net/secrets/s1'',
              VersionlessID := StringValue ''https://myvault.vault.azure.net/secrets/s1'',
              Version := StringValue [],
              ResourceID := StringValue (example_keyVaultID @ ''/secrets/s1/versions/'')\<rparr>)"
  by (simp add: setSecretData_def example_versionless_ID_def example_attributes_def
      example_model_def TrimSuffix_def HasSuffix_def versionedID_invariant_def
      GetKeyVaultID_model_def)

text \<open>
  C9 (frame of \<^verbatim>\<open>setSecretData\<close>). A call panics when the identifier is nil or has no
  name segment, or when the attributes are nil, and then leaves no model behind. Every
  other call returns, and afterwards: a nil content type leaves \<open>content_type\<close> as it was,
  a nil \<open>NotBefore\<close> leaves \<open>not_before_date\<close>, a nil \<open>Expires\<close> leaves \<open>expiration_date\<close>,
  a nil tag map leaves \<open>tags\<close>; and \<open>id\<close>, \<open>versionless_id\<close>, \<open>version\<close>,
  \<open>resource_versionless_id\<close> and \<open>resource_id\<close> hold the values computed from the
  identifier and the vault identifier of the model, whatever they held before.
\<close>

theorem C9_absent_inputs_keep_fields:
  "(ident = None \<or> (\<exists>i. ident = Some i \<and> ID_Name i = None) \<or> attrs = None \<longrightarrow>
      setSecretData s ident attrs ct tg = None)
   \<and> (\<forall>i nm a. ident = Some i \<and> ID_Name i = Some nm \<and> attrs = Some a \<longrightarrow>
        (\<exists>d s'. setSecretData s ident attrs ct tg = Some (d, s') \<and>
           (ct = None \<longrightarrow> ContentType s' = ContentType s) \<and>
           (NotBefore a = None \<longrightarrow> NotBeforeDate s' = NotBeforeDate s) \<and>
           (Expires a = None \<longrightarrow> ExpirationDate s' = ExpirationDate s) \<and>
           (tg = None \<longrightarrow> Tags s' = Tags s) \<and>
           ID s' = StringValue (ID_string i) \<and>
           VersionlessID s' = StringValue (TrimSuffix (ID_string i) (''/'' @ ID_Version i)) \<and>
           Version s' = StringValue (ID_Version i) \<and>
           ResourceVersionlessID s'
             = StringValue (ValueString (KeyVaultID s) @ ''/secrets/'' @ nm) \<and>
           ResourceID s'
             = StringValue (ValueString (KeyVaultID s) @ ''/secrets/'' @ nm
                            @ ''/versions/'' @ ID_Version i)))"
proof (intro conjI impI allI)
  assume "ident = None \<or> (\<exists>i. ident = Some i \<and> ID_Name i = None) \<or> attrs = None"
  then show "setSecretData s ident attrs ct tg = None" by (rule setSecretData_panics)
next
  fix i nm a
  assume h: "ident = Some i \<and> ID_Name i = Some nm \<and> attrs = Some a"
  then obtain d s' where
    r: "setSecretData s (Some i) (Some a) ct tg = Some (d, s')"
    using setSecretData_returns[of i nm s a ct tg] by blast
  from setSecretData_identifiers(4)[OF r] h have res:
    "ResourceVersionlessID s' = StringValue (ValueString (KeyVaultID s) @ ''/secrets/'' @ nm)"
    "ResourceID s' = StringValue (ValueString (KeyVaultID s) @ ''/secrets/'' @ nm
                                  @ ''/versions/'' @ ID_Version i)"
    by auto
  show "\<exists>d s'. setSecretData s ident attrs ct tg = Some (d, s') \<and>
           (ct = None \<longrightarrow> ContentType s' = ContentType s) \<and>
           (NotBefore a = None \<longrightarrow> NotBeforeDate s' = NotBeforeDate s) \<and>
           (Expires a = None \<longrightarrow> ExpirationDate s' = ExpirationDate s) \<and>
           (tg = None \<longrightarrow> Tags s' = Tags s) \<and>
           ID s' = StringValue (ID_string i) \<and>
           VersionlessID s' = StringValue (TrimSuffix (ID_string i) (''/'' @ ID_Version i)) \<and>
           Version s' = StringValue (ID_Version i) \<and>
           ResourceVersionlessID s'
             = StringValue (ValueString (KeyVaultID s) @ ''/secrets/'' @ nm) \<and>
           ResourceID s'
             = StringValue (ValueString (KeyVaultID s) @ ''/secrets/'' @ nm
                            @ ''/versions/'' @ ID_Version i)"
    using r h setSecretData_frame(1-4)[OF r] setSecretData_identifiers(1-3)[OF r] res
    by (intro exI[of _ d] exI[of _ s']) simp
qed

theorem C9_absent_inputs_keep_fields_witness:
  "setSecretData example_model None (Some example_attributes) None None = None
   \<and> (\<exists>d s'. setSecretData example_model (Some (example_ID ''v2'')) (Some example_attributes)
             None None = Some (d, s') \<and>
     ContentType s' = StringValue ''text/plain'' \<and>
     NotBeforeDate s' = RFC3339Value \<lparr>instant = 100, location = ''UTC''\<rparr> \<and>
     ExpirationDate s' = RFC3339Value \<lparr>instant = 200, location = ''UTC''\<rparr> \<and>
     Tags s' = MapValue [(''environment'', StringValue ''test'')] \<and>
     ID s' = StringValue ''https://myvault.vault.azure.net/secrets/s1/v2'' \<and>
     VersionlessID s' = StringValue ''https://myvault.vault.azure.net/secrets/s1'' \<and>
     Version s' = StringValue ''v2'' \<and>
     ResourceVersionlessID s' = StringValue (example_keyVaultID @ ''/secrets/s1'') \<and>
     ResourceID s' = StringValue (example_keyVaultID @ ''/secrets/s1/versions/v2''))"
proof -
  have panic: "setSecretData example_model None (Some example_attributes) None None = None"
    using C9_absent_inputs_keep_fields
            [of None "Some example_attributes" example_model None None]
    by simp
  have ok: "\<exists>d s'. setSecretData example_model (Some (example_ID ''v2''))
                     (Some example_attributes) None None = Some (d, s') \<and>
     ContentType s' = StringValue ''text/plain'' \<and>
     NotBeforeDate s' = RFC3339Value \<lparr>instant = 100, location = ''UTC''\<rparr> \<and>
     ExpirationDate s' = RFC3339Value \<lparr>instant = 200, location = ''UTC''\<rparr> \<and>
     Tags s' = MapValue [(''environment'', StringValue ''test'')] \<and>
     ID s' = StringValue ''https://myvault.vault.azure.net/secrets/s1/v2'' \<and>
     VersionlessID s' = StringValue ''https://myvault.vault.azure.net/secrets/s1'' \<and>
     Version s' = StringValue ''v2'' \<and>
     ResourceVersionlessID s' = StringValue (example_keyVaultID @ ''/secrets/s1'') \<and>
     ResourceID s' = StringValue (example_keyVaultID @ ''/secrets/s1/versions/v2'')"
    using C9_absent_inputs_keep_fields
            [of "Some (example_ID ''v2'')" "Some example_attributes" example_model None None]
    by (simp add: example_model_def example_ID_def example_attributes_def TrimSuffix_def
        HasSuffix_def)
  from panic ok show ?thesis by simp
qed

section \<open>Plan reconciler\<close>

text \<open>
  With a known write-only value and equal counters, the version of the reconciled plan
  is the version string of the prior state: this is the version that \<^verbatim>\<open>Update\<close> then
  addresses on its metadata path.
\<close>

lemma ModifyPlan_pins_version:
  assumes "ValueWO config = StringValue v" and "ValueWOVersion config = Int32Value n"
    and "ValueWOVersion state = Int32Value n"
  shows "ValueString (Version (ModifyPlan (Some config) (Some state) plan))
           = ValueString (Version state)"
  using assms by (simp add: ModifyPlan_def)

lemma ValueString_known: "x = StringValue v \<Longrightarrow> StringValue (ValueString x) = x"
  by simp

text \<open>
  C2 (rotation counter unchanged: pinned; changed: unknown). The prior state and the
  configuration exist, and the configuration holds a known write-only value and a known
  rotation counter. If the counter of the configuration equals the one of the prior
  state, the plan of the response is the proposed plan with \<open>id\<close>, \<open>resource_id\<close> and
  \<open>version\<close> set to the known strings the prior state holds for them (never unknown); if
  the counters differ, it is the proposed plan with these three attributes unknown.
  Nothing else of the plan changes.
\<close>

theorem C2_plan_pins_or_marks_unknown:
  assumes "ValueWO config = StringValue v" and "ValueWOVersion config = Int32Value n"
  shows "(ValueWOVersion config = ValueWOVersion state \<longrightarrow>
            ModifyPlan (Some config) (Some state) plan
              = plan\<lparr>ID := StringValue (ValueString (ID state)),
                     ResourceID := StringValue (ValueString (ResourceID state)),
                     Version := StringValue (ValueString (Version state))\<rparr>)
       \<and> (ValueWOVersion config \<noteq> ValueWOVersion state \<longrightarrow>
            ModifyPlan (Some config) (Some state) plan
              = plan\<lparr>ID := StringUnknown, ResourceID := StringUnknown,
                     Version := StringUnknown\<rparr>)"
  using assms by (simp add: ModifyPlan_def markValueWillChange_def)

theorem C2_plan_pins_or_marks_unknown_witness:
  "ModifyPlan (Some (example_config 1)) (Some example_model) (example_plan 1)
     = (example_plan 1)\<lparr>ID := ID example_model, ResourceID := ResourceID example_model,
                         Version := Version example_model\<rparr>
   \<and> ModifyPlan (Some (example_config 2)) (Some example_model) (example_plan 2)
     = (example_plan 2)\<lparr>ID := StringUnknown, ResourceID := StringUnknown,
                         Version := StringUnknown\<rparr>"
proof -
  have a: "ValueWO (example_config n) = StringValue ''secret-value''" for n
    by (simp add: example_config_def)
  have b: "ValueWOVersion (example_config n) = Int32Value n" for n
    by (simp add: example_config_def)
  have c: "ValueWOVersion example_model = Int32Value 1"
    by (simp add: example_model_def)
  show ?thesis
    using C2_plan_pins_or_marks_unknown[OF a b, of 1 example_model "example_plan 1"]
          C2_plan_pins_or_marks_unknown[OF a b, of 2 example_model "example_plan 2"]
    by (simp add: b c) (simp add: example_model_def)
qed

section \<open>Update\<close>

lemma Append_Nil [simp]: "Append [] [] = []"
  by simp

lemma HasError_Nil [simp]: "\<not> HasError []"
  by (simp add: HasError_def)

lemma HasError_AddError: "HasError (AddError ds summary detail)"
  by (auto simp: AddError_def HasError_def list_ex_iff
      intro: bexI[of _ "ErrorDiag summary detail"])


text \<open>
  Without a known write-only value in the configuration, \<^verbatim>\<open>Update\<close> stops at its first
  check of the diagnostics and makes no call.
\<close>

lemma Append_keeps: "d \<in> set diags \<Longrightarrow> d \<in> set (Append diags ds)"
  by (induction ds arbitrary: diags) auto

lemma Update_stops_without_value:
  assumes "ValueWO config = StringNull \<or> ValueWO config = StringUnknown"
  shows "calls_of (Update c plan config state) = []"
proof -
  obtain x d1 where h: "GetAttribute_string (ValueWO config) = (x, d1)"
    by (cases "GetAttribute_string (ValueWO config)")
  obtain w d2 where g: "GetAttribute_int32 (ValueWOVersion state) = (w, d2)"
    by (cases "GetAttribute_int32 (ValueWOVersion state)")
  from assms h obtain e where e: "isError e" "e \<in> set (Append [] d1)"
    by (auto simp: GetAttribute_string_def)
  then have "e \<in> set (Append (Append [] d1) d2)" by (simp add: Append_keeps)
  with e(1) have "HasError (Append (Append [] d1) d2)"
    by (auto simp: HasError_def list_ex_iff)
  then show ?thesis by (simp add: Update_def g h)
qed













section \<open>Import\<close>

text \<open>
  C8 (a successful import sets the rotation counter to 1). In both entry modes (a
  structured identity, or the string identifier alone), when \<^verbatim>\<open>ImportState\<close> returns
  without an error diagnostic, the state of the response holds \<open>value_wo_version = 1\<close>.
\<close>

theorem C8_import_sets_counter_to_one:
  assumes "ImportState c reqID reqIdentity state0 = Some (diags, st)"
    and "\<not> HasError diags"
  shows "ValueWOVersion st = Int32Value 1"
  using assms
  by (auto simp: ImportState_def Let_def HasError_AddError
      split: option.splits result.splits sum.splits if_splits)

lemma firstKeyVault_empty:
  "set pages \<subseteq> {Inr []} \<Longrightarrow> firstKeyVault pages = Ret None"
  by (induction pages rule: firstKeyVault.induct) auto

text \<open>
  C7, as amended (import by string identifier, vault absent from the resource
  directory). A subscription is configured, the string identifier matches the pattern of
  secret identifiers (the host is the vault name followed by \<open>.vault.azure.net\<close>), and every
  page the resource directory yields for the vault name is empty. Then the import reports
  the error \<open>Failed to Get KeyVaults\<close>, whose detail says that the key vault was not found
  and names the permission \<open>Microsoft.KeyVault/vaults/read\<close>.
\<close>

theorem C7_import_vault_absent:
  assumes "subscriptionID c \<noteq> []"
    and "extractVaultNameAndName reqID = Inr (vaultName, name)"
    and "set (NewListPager c (vaultsFilter vaultName)) \<subseteq> {Inr []}"
  shows "ImportState (asClient c) reqID None state0
     = Some ([ErrorDiag ''Failed to Get KeyVaults''
                [Text ''the key vault '', Quoted vaultName, Text permissionHint]],
             state0\<lparr>ID := StringValue reqID, Name := StringValue name,
                    KeyVaultID := StringValue [], ValueWOVersion := Int32Value 1\<rparr>)"
proof -
  have "GetKeyVaultID c vaultName
          = Fail [Text ''the key vault '', Quoted vaultName, Text permissionHint]"
    using firstKeyVault_empty[OF assms(3)]
    by (simp add: GetKeyVaultID_def vaultsFilter_def permissionHint_def)
  then show ?thesis
    using assms(1,2)
    by (simp add: ImportState_def asClient_def GetSubscriptionID_def AddError_def)
qed

lemma extract_example_ID:
  "extractVaultNameAndName ''https://myvault.vault.azure.net/secrets/s1/abcd''
     = Inr (''myvault'', ''s1'')"
  by (simp add: extractVaultNameAndName_def idRegex_def idRegexTail_def dot_def
      notSlashPlus_def slash_def newline_def byte_def)

theorem C7_import_vault_absent_witness:
  "ImportState (asClient (example_client [] [Inr []]))
     ''https://myvault.vault.azure.net/secrets/s1/abcd'' None empty_state
   = Some ([ErrorDiag ''Failed to Get KeyVaults''
              [Text ''the key vault '', Quoted ''myvault'', Text permissionHint]],
           empty_state\<lparr>ID := StringValue ''https://myvault.vault.azure.net/secrets/s1/abcd'',
                        Name := StringValue ''s1'',
                        KeyVaultID := StringValue [], ValueWOVersion := Int32Value 1\<rparr>)"
proof -
  have a: "subscriptionID (example_client [] [Inr []]) \<noteq> []"
    by (simp add: example_client_def)
  have b: "set (NewListPager (example_client [] [Inr []]) (vaultsFilter ''myvault'')) \<subseteq> {Inr []}"
    by (simp add: example_client_def)
  show ?thesis by (rule C7_import_vault_absent[OF a extract_example_ID b])
qed

text \<open>
  C7 as stated fails: the identifier \<open>https://myvault.example/secrets/s1/abcd\<close> does not
  match the pattern of secret identifiers, so the import stops with the error
  \<open>Invalid ID\<close> and the resource directory is not asked.
\<close>

theorem C7_import_example_host_counterexample:
  "ImportState (asClient (example_client [] [Inr []]))
     ''https://myvault.example/secrets/s1/abcd'' None empty_state
   = Some ([ErrorDiag ''Invalid ID''
              [Text ''invalid ID: '', Quoted ''https://myvault.example/secrets/s1/abcd'',
               Text '' doesn't match '', Quoted idRegex_source]],
           empty_state\<lparr>ID := StringValue ''https://myvault.example/secrets/s1/abcd''\<rparr>)"
proof -
  have "extractVaultNameAndName ''https://myvault.example/secrets/s1/abcd''
          = Inl [Text ''invalid ID: '', Quoted ''https://myvault.example/secrets/s1/abcd'',
                 Text '' doesn't match '', Quoted idRegex_source]"
    by (simp add: extractVaultNameAndName_def idRegex_def idRegexTail_def dot_def
        notSlashPlus_def slash_def newline_def byte_def)
  then show ?thesis
    by (simp add: ImportState_def asClient_def GetSubscriptionID_def AddError_def
        example_client_def)
qed

theorem C8_import_sets_counter_to_one_witness:
  "(\<exists>diags st. ImportState (asClient (example_client [Inr [example_secret ''v1'' 1]] []))
                  [] (Some example_identity) empty_state = Some (diags, st)
               \<and> \<not> HasError diags \<and> ValueWOVersion st = Int32Value 1)
   \<and> (\<exists>diags st. ImportState (asClient (example_client [] [Inr [Some example_keyVaultID]]))
                  ''https://myvault.vault.azure.net/secrets/s1/abcd'' None empty_state
                    = Some (diags, st)
               \<and> \<not> HasError diags \<and> ValueWOVersion st = Int32Value 1)"
proof -
  have "GetSecretProperties (example_client [Inr [example_secret ''v1'' 1]] [])
          example_keyVaultID ''s1'' [] = Ret (example_secret ''v1'' 1)"
    by (simp add: GetSecretProperties_def getSecretClient_example)
       (simp add: example_client_def)
  then obtain st1 where s1:
    "ImportState (asClient (example_client [Inr [example_secret ''v1'' 1]] []))
       [] (Some example_identity) empty_state = Some ([], st1)"
    by (simp add: ImportState_def asClient_def example_identity_def)
  have "GetKeyVaultID (example_client [] [Inr [Some example_keyVaultID]]) ''myvault''
          = Ret example_keyVaultID"
    by (simp add: GetKeyVaultID_def example_client_def)
  then obtain st2 where s2:
    "ImportState (asClient (example_client [] [Inr [Some example_keyVaultID]]))
       ''https://myvault.vault.azure.net/secrets/s1/abcd'' None empty_state = Some ([], st2)"
    by (simp add: ImportState_def asClient_def GetSubscriptionID_def extract_example_ID
        example_client_def)
  have ok: "\<not> HasError []" by simp
  from C8_import_sets_counter_to_one[OF s1 ok] C8_import_sets_counter_to_one[OF s2 ok] s1 s2
  show ?thesis by simp
qed

section \<open>Identity codec: what the patterns accept\<close>

lemma lit_append: "lit p (p @ r) = Some r"
  by (induction p) auto

lemma takeWhile_notSlash_slash:
  "CHR ''/'' \<notin> set x \<Longrightarrow> takeWhile (\<lambda>c. c \<noteq> CHR ''/'') (x @ CHR ''/'' # r) = x"
  by (induction x) auto

lemma takeWhile_notSlash_end:
  "CHR ''/'' \<notin> set x \<Longrightarrow> takeWhile (\<lambda>c. c \<noteq> CHR ''/'') x = x"
  by (induction x) auto

lemma notSlashPlus_slash:
  "x \<noteq> [] \<Longrightarrow> CHR ''/'' \<notin> set x \<Longrightarrow> notSlashPlus (x @ CHR ''/'' # r) = Some (x, CHR ''/'' # r)"
  by (simp add: notSlashPlus_def slash_def takeWhile_notSlash_slash)

lemma notSlashPlus_end:
  "x \<noteq> [] \<Longrightarrow> CHR ''/'' \<notin> set x \<Longrightarrow> notSlashPlus x = Some (x, [])"
  by (simp add: notSlashPlus_def slash_def takeWhile_notSlash_end)

lemma dot_period: "dot (CHR ''.'' # r) = Some r"
  by (simp add: dot_def newline_def byte_def)

text \<open>
  A vault resource identifier of the documented form, with non-empty segments that hold
  no slash, gives back the vault name.
\<close>

lemma extractVaultName_wellformed:
  assumes "s \<noteq> []" "CHR ''/'' \<notin> set s" "g \<noteq> []" "CHR ''/'' \<notin> set g"
    and "n \<noteq> []" "CHR ''/'' \<notin> set n"
  shows "extractVaultName
           (''/subscriptions/'' @ s @ ''/resourceGroups/'' @ g
            @ ''/providers/Microsoft.KeyVault/vaults/'' @ n) = Inr n"
  using assms
  by (simp add: extractVaultName_def keyVaultIDRegex_def notSlashPlus_slash notSlashPlus_end
      dot_period)

text \<open>
  C6 (identifiers that do not have the form
  \<open>/subscriptions/{s}/resourceGroups/{g}/providers/Microsoft.KeyVault/vaults/{name}\<close> are
  rejected). The dot of \<open>Microsoft.KeyVault\<close> is not escaped in the pattern and matches any
  character: the identifier below, with \<open>MicrosoftXKeyVault\<close> as the provider, is accepted
  and a vault name is returned for it.
\<close>

theorem C6_unescaped_dot_accepts_other_character:
  "extractVaultName
     ''/subscriptions/sub1/resourceGroups/rg1/providers/MicrosoftXKeyVault/vaults/myvault''
   = Inr ''myvault''"
  by (simp add: extractVaultName_def keyVaultIDRegex_def dot_def notSlashPlus_def slash_def
      newline_def byte_def)

text \<open>
  C10 (\<^verbatim>\<open>extractVaultNameAndName\<close> fails exactly on the inputs that do not begin with
  \<open>https://{vault}.vault.azure.net/secrets/{name}\<close>). The first dot of the host suffix is
  escaped in the pattern, the two others are not and match any character: the identifier
  below, whose host is \<open>myvault.vaultXazureYnet\<close>, does not begin with that prefix and is
  accepted.
\<close>

theorem C10_unescaped_dots_accept_other_characters:
  "extractVaultNameAndName ''https://myvault.vaultXazureYnet/secrets/s1/abcd''
   = Inr (''myvault'', ''s1'')"
  by (simp add: extractVaultNameAndName_def idRegex_def idRegexTail_def dot_def
      notSlashPlus_def slash_def newline_def byte_def)

lemma notSlashPlus_rest:
  "n \<noteq> [] \<Longrightarrow> CHR ''/'' \<notin> set n \<Longrightarrow> rest = [] \<or> hd rest = CHR ''/'' \<Longrightarrow>
   \<exists>r. notSlashPlus (n @ rest) = Some (n, r)"
  by (cases rest) (auto simp: notSlashPlus_slash notSlashPlus_end)

lemma idRegexTail_literal:
  "n \<noteq> [] \<Longrightarrow> CHR ''/'' \<notin> set n \<Longrightarrow> rest = [] \<or> hd rest = CHR ''/'' \<Longrightarrow>
   idRegexTail (''.vault.azure.net/secrets/'' @ n @ rest) = Some n"
  using notSlashPlus_rest[of n rest]
  by (auto simp: idRegexTail_def dot_period)

lemma idRegexGroup_literal:
  assumes "v \<noteq> []" and "idRegexTail t = Some n"
    and "t = ''.vault.azure.net/secrets/'' @ u"
  shows "idRegexGroup (length v + 16) (v @ t) = Some (v, n)"
proof -
  have fail: "idRegexTail (drop k t) = None" if "k \<in> {1..16}" for k
  proof -
    from that have "k = 1 \<or> k = 2 \<or> k = 3 \<or> k = 4 \<or> k = 5 \<or> k = 6 \<or> k = 7 \<or> k = 8 \<or>
        k = 9 \<or> k = 10 \<or> k = 11 \<or> k = 12 \<or> k = 13 \<or> k = 14 \<or> k = 15 \<or> k = 16"
      unfolding atLeastAtMost_iff by arith
    then show ?thesis
      by (elim disjE) (simp_all add: assms(3) idRegexTail_def)
  qed
  have skip: "k \<le> 16 \<Longrightarrow> idRegexGroup (length v + k) (v @ t) = idRegexGroup (length v) (v @ t)" for k
  proof (induction k)
    case 0
    then show ?case by simp
  next
    case (Suc k)
    have "idRegexTail (drop (Suc (length v + k)) (v @ t)) = None"
      using fail[of "Suc k"] Suc.prems by simp
    then show ?case using Suc by simp
  qed
  from assms(1) obtain m where m: "length v = Suc m" by (cases v) auto
  have "idRegexGroup (length v) (v @ t) = Some (v, n)"
    using assms(2) by (simp add: m[symmetric] idRegexGroup.simps(2)[of m, unfolded m[symmetric]])
  with skip[of 16] show ?thesis by simp
qed

text \<open>
  An input that begins with the documented prefix, the vault and the secret name
  non-empty and without a slash, and the secret name followed by nothing or by a slash,
  is accepted, and its two names are returned whatever follows.
\<close>

lemma extractVaultNameAndName_wellformed:
  assumes "v \<noteq> []" "CHR ''/'' \<notin> set v" "n \<noteq> []" "CHR ''/'' \<notin> set n"
    and "rest = [] \<or> hd rest = CHR ''/''"
  shows "extractVaultNameAndName (''https://'' @ v @ ''.vault.azure.net/secrets/'' @ n @ rest)
           = Inr (v, n)"
proof -
  let ?t = "''.vault.azure.net/secrets/'' @ n @ rest"
  have run: "takeWhile (\<lambda>c. c \<noteq> CHR ''/'') (v @ ?t) = v @ ''.vault.azure.net''"
    using takeWhile_notSlash_slash[of "v @ ''.vault.azure.net''" "''secrets/'' @ n @ rest"]
          assms(2) by simp
  have "idRegexGroup (length v + 16) (v @ ?t) = Some (v, n)"
    by (rule idRegexGroup_literal[OF assms(1) idRegexTail_literal[OF assms(3,4,5)] refl])
  moreover have "length (takeWhile (\<lambda>c. c \<noteq> CHR ''/'') (v @ ?t)) = length v + 16"
    by (simp only: run) simp
  moreover have "lit ''https://'' (''https://'' @ v @ ?t) = Some (v @ ?t)"
    by (rule lit_append)
  ultimately have "idRegex (''https://'' @ v @ ?t) = Some (v, n)"
    by (simp add: idRegex_def slash_def del: idRegexGroup.simps lit.simps)
  then show ?thesis by (simp add: extractVaultNameAndName_def)
qed

end
